theory Spec2Isabelle
  imports Complex_Main "HOL-Library.AList"
begin

section \<open>Python values, exceptions and the builtins the sources rely on\<close>

text \<open>
  The repository is a small retrieval pipeline written in Python: \<^verbatim>\<open>indexer.py\<close> extracts
  code chunks, \<^verbatim>\<open>setup_index.py\<close> embeds and stores them, \<^verbatim>\<open>database.py\<close> queries the
  store, \<^verbatim>\<open>generator.py\<close> builds the prompt and calls the remote model, and
  \<^verbatim>\<open>main.py\<close> is the HTTP handler. Every \<^verbatim>\<open>raise\<close> is a value \<open>Inl e\<close>, every normal
  return a value \<open>Inr v\<close>. All exception classes below derive from Python's
  \<^verbatim>\<open>Exception\<close>, so an \<^verbatim>\<open>except Exception\<close> clause catches every value of \<open>exn\<close>.
\<close>

datatype exn_class =
  UnicodeDecodeError | TypeError | ValueError | KeyError | AttributeError
  | IndexError | OSError | RequestException | JSONDecodeError | ValidationError
  | OperationFailure | PlainException

datatype exn =
  Exn exn_class string
  | SyntaxErr "int option" string
  | HTTPException int string

type_synonym 'a result = "exn + 'a"

definition digit_char :: "nat \<Rightarrow> char" where
  "digit_char d = char_of (48 + d)"

function str_nat :: "nat \<Rightarrow> string" where
  "str_nat n = (if n < 10 then [digit_char n] else str_nat (n div 10) @ [digit_char (n mod 10)])"
  by pat_completeness auto
termination
  by (relation "measure id") auto

declare str_nat.simps [simp del]

definition str_int :: "int \<Rightarrow> string" where
  "str_int i = (if i < 0 then CHR ''-'' # str_nat (nat (- i)) else str_nat (nat i))"

text \<open>
  \<^verbatim>\<open>str(e)\<close>. An exception built from one message argument prints that message. The
  parser's own \<^verbatim>\<open>SyntaxError\<close> carries a line number; the one \<^verbatim>\<open>_parse_file\<close> raises
  has none. \<^verbatim>\<open>HTTPException.__str__\<close> is Starlette's \<^verbatim>\<open>f"{status_code}: {detail}"\<close>.
\<close>

fun str_exn :: "exn \<Rightarrow> string" where
  "str_exn (Exn c m) = m"
| "str_exn (SyntaxErr None m) = m"
| "str_exn (SyntaxErr (Some l) m) = m @ '' (<unknown>, line '' @ str_int l @ '')''"
| "str_exn (HTTPException s d) = str_int s @ '': '' @ d"

text \<open>\<^verbatim>\<open>s.split(c)\<close> for a one-character separator, and \<^verbatim>\<open>sep.join(xs)\<close>.\<close>

fun split_on :: "char \<Rightarrow> string \<Rightarrow> string list" where
  "split_on c [] = [[]]"
| "split_on c (x # xs) =
     (if x = c then [] # split_on c xs
      else (case split_on c xs of [] \<Rightarrow> [[x]] | l # ls \<Rightarrow> (x # l) # ls))"

fun join :: "string \<Rightarrow> string list \<Rightarrow> string" where
  "join sep [] = []"
| "join sep [x] = x"
| "join sep (x # y # ys) = x @ sep @ join sep (y # ys)"

text \<open>\<^verbatim>\<open>xs[start:end]\<close>: a negative bound counts from the end, and both are clamped.\<close>

definition slice_bound :: "int \<Rightarrow> int \<Rightarrow> nat" where
  "slice_bound n i = (if i < 0 then nat (max 0 (n + i)) else nat (min n i))"

definition py_slice :: "'a list \<Rightarrow> int \<Rightarrow> int \<Rightarrow> 'a list" where
  "py_slice xs s e =
     (let n = int (length xs); a = slice_bound n s; b = slice_bound n e
      in take (b - a) (drop a xs))"

text \<open>
  A dictionary is an association list in insertion order with distinct keys. A float is
  carried as a real number: the sources never compute with one.
\<close>

datatype pyval = PStr string | PInt int | PFloat real | PFloats "real list"

type_synonym pydict = "(string \<times> pyval) list"

definition quoted :: "string \<Rightarrow> string" where
  "quoted s = [CHR 0x27] @ s @ [CHR 0x27]"

definition key_error :: "string \<Rightarrow> exn" where
  "key_error k = Exn KeyError (quoted k)"

definition getitem :: "pydict \<Rightarrow> string \<Rightarrow> pyval result" where
  "getitem d k = (case map_of d k of None \<Rightarrow> Inl (key_error k) | Some v \<Rightarrow> Inr v)"

definition setitem :: "pydict \<Rightarrow> string \<Rightarrow> pyval \<Rightarrow> pydict" where
  "setitem d k v = AList.update k v d"

definition delitem :: "pydict \<Rightarrow> string \<Rightarrow> pydict result" where
  "delitem d k = (case map_of d k of None \<Rightarrow> Inl (key_error k) | Some v \<Rightarrow> Inr (AList.delete k d))"

text \<open>Paths are lists of components; \<^verbatim>\<open>str(p)\<close> joins them with a slash.\<close>

type_synonym path = "string list"

definition str_path :: "path \<Rightarrow> string" where
  "str_path p = join ''/'' p"

definition relative_to :: "path \<Rightarrow> path \<Rightarrow> path result" where
  "relative_to p base =
     (if take (length base) p = base then Inr (drop (length base) p)
      else Inl (Exn ValueError (str_path p @ '' is not in the subpath of '' @ str_path base)))"

datatype level = DEBUG | INFO | WARNING | ERROR

type_synonym log_record = "level \<times> string"

section \<open>The syntax tree of the \<^verbatim>\<open>ast\<close> module\<close>

text \<open>
  A node carries its class and the attributes \<^verbatim>\<open>_extract_node\<close> reads: \<^verbatim>\<open>name\<close>,
  \<^verbatim>\<open>lineno\<close>, \<^verbatim>\<open>end_lineno\<close> (\<open>None\<close> when the attribute is absent) and the value
  \<^verbatim>\<open>ast.get_docstring(node)\<close> returns. \<^verbatim>\<open>ast.AsyncFunctionDef\<close> is a class of its own,
  not a subclass of \<^verbatim>\<open>ast.FunctionDef\<close>. The attributes of a node of another class are
  never read.
\<close>

datatype node_class = Module | FunctionDef | AsyncFunctionDef | ClassDef | OtherNode string

datatype ast =
  Node (node_class: node_class) (name: string) (lineno: int) (end_lineno: "int option")
       (get_docstring: "string option") (child_nodes: "ast list")

text \<open>
  \<^verbatim>\<open>ast.walk\<close>: a queue that starts with the root; each step pops the first node,
  appends its children and yields it (breadth first).
\<close>

function walk_queue :: "ast list \<Rightarrow> ast list" where
  "walk_queue [] = []"
| "walk_queue (Node c n l e d ch # todo) = Node c n l e d ch # walk_queue (todo @ ch)"
  by pat_completeness auto
termination
  by (relation "measure (\<lambda>q. sum_list (map size q))") (auto simp: size_list_conv_sum_list)

definition walk :: "ast \<Rightarrow> ast list" where
  "walk t = walk_queue [t]"

section \<open>The unit extractor (\<^verbatim>\<open>indexer.py\<close>)\<close>

text \<open>
  The file system as the extractor sees it: whether a path exists, and the files
  \<^verbatim>\<open>rglob("*.py")\<close> yields below a directory, in traversal order. A file has its path and
  the outcome of opening and reading it under either encoding.
\<close>

record py_file =
  file_path :: path
  read_utf8 :: "string result"
  read_latin1 :: "string result"

record file_system =
  path_exists :: "path \<Rightarrow> bool"
  rglob :: "path \<Rightarrow> py_file list"

record code_indexer =
  source_dir :: path
  target_dirs :: "string list"

definition CodeIndexer :: "path \<Rightarrow> code_indexer" where
  "CodeIndexer source = \<lparr>source_dir = source, target_dirs = [''models'', ''engine'', ''data'']\<rparr>"

text \<open>
  \<^verbatim>\<open>_extract_node\<close>. The whole body is inside \<^verbatim>\<open>try\<close>; the only step that can raise is
  \<^verbatim>\<open>relative_to\<close>, and then the method logs at debug level and returns \<^verbatim>\<open>None\<close>.
\<close>

definition extract_node ::
  "code_indexer \<Rightarrow> ast \<Rightarrow> string \<Rightarrow> path \<Rightarrow> log_record list \<times> pydict option" where
  "extract_node self node source fp =
     (let lines = split_on CHR ''\<newline>'' source;
          start = lineno node - 1;
          end' = (case end_lineno node of Some e \<Rightarrow> e | None \<Rightarrow> start + 10);
          code = join ''\<newline>'' (py_slice lines start end');
          docstring = (case get_docstring node of None \<Rightarrow> []
                       | Some d \<Rightarrow> if d = [] then [] else d)
      in case relative_to fp (source_dir self) of
           Inl e \<Rightarrow>
             ([(DEBUG, ''Could not extract node '' @ name node @ '' from '' @ str_path fp
                        @ '': '' @ str_exn e)], None)
         | Inr rel \<Rightarrow>
             ([], Some
               [(''file_path'', PStr (str_path rel)),
                (''name'', PStr (name node)),
                (''type'', PStr (if node_class node = ClassDef then ''class'' else ''function'')),
                (''code'', PStr code),
                (''docstring'', PStr docstring),
                (''lineno'', PInt (lineno node)),
                (''text_for_embedding'',
                   PStr (name node @ ''\<newline>'' @ docstring @ ''\<newline>'' @ code))]))"

text \<open>
  Reading the file in \<^verbatim>\<open>_parse_file\<close>. The fallback's
  \<^verbatim>\<open>raise UnicodeDecodeError(f"...")\<close> passes one argument to a constructor that takes
  five, so what leaves the handler is a \<^verbatim>\<open>TypeError\<close>.
\<close>

definition read_source :: "py_file \<Rightarrow> log_record list \<times> string result" where
  "read_source f =
     (case read_utf8 f of
        Inr source \<Rightarrow> ([], Inr source)
      | Inl (Exn UnicodeDecodeError m) \<Rightarrow>
          ([(WARNING, ''Could not decode '' @ str_path (file_path f)
                      @ '' with UTF-8. Trying latin-1...'')],
           (case read_latin1 f of
              Inr source \<Rightarrow> Inr source
            | Inl e \<Rightarrow> Inl (Exn TypeError ''function takes exactly 5 arguments (1 given)'')))
      | Inl e \<Rightarrow> ([], Inl e))"

text \<open>The loop of \<^verbatim>\<open>_parse_file\<close> over \<^verbatim>\<open>ast.walk(tree)\<close>, with its log and its list.\<close>

fun walk_loop ::
  "code_indexer \<Rightarrow> string \<Rightarrow> path \<Rightarrow> log_record list \<times> pydict list \<Rightarrow> ast list
   \<Rightarrow> log_record list \<times> pydict list" where
  "walk_loop self source fp (lg, chunks) [] = (lg, chunks)"
| "walk_loop self source fp (lg, chunks) (node # rest) =
     (if node_class node = FunctionDef \<or> node_class node = ClassDef then
        (case extract_node self node source fp of
           (lg', Some chunk) \<Rightarrow> walk_loop self source fp (lg @ lg', chunks @ [chunk]) rest
         | (lg', None) \<Rightarrow> walk_loop self source fp (lg @ lg', chunks) rest)
      else walk_loop self source fp (lg, chunks) rest)"

text \<open>
  \<^verbatim>\<open>_parse_file\<close>; \<open>ast_parse\<close> is the standard library's \<^verbatim>\<open>ast.parse\<close>, a parameter.
\<close>

definition parse_file ::
  "(string \<Rightarrow> ast result) \<Rightarrow> code_indexer \<Rightarrow> py_file
   \<Rightarrow> log_record list \<times> pydict list result" where
  "parse_file ast_parse self f =
     (case read_source f of
        (lg, Inl e) \<Rightarrow> (lg, Inl e)
      | (lg, Inr source) \<Rightarrow>
          (case ast_parse source of
             Inl (SyntaxErr l m) \<Rightarrow>
               (lg, Inl (SyntaxErr None
                  (''Invalid Python syntax at line ''
                   @ (case l of None \<Rightarrow> ''None'' | Some n \<Rightarrow> str_int n) @ '': '' @ m)))
           | Inl e \<Rightarrow> (lg, Inl e)
           | Inr tree \<Rightarrow>
               (case walk_loop self source (file_path f) (lg, []) (walk tree) of
                  (lg', chunks) \<Rightarrow> (lg', Inr chunks))))"

text \<open>The body of the inner loop of \<^verbatim>\<open>extract_code_chunks\<close>: one file, three handlers.\<close>

definition file_step ::
  "(string \<Rightarrow> ast result) \<Rightarrow> code_indexer \<Rightarrow> log_record list \<times> pydict list \<Rightarrow> py_file
   \<Rightarrow> log_record list \<times> pydict list" where
  "file_step ast_parse self st f =
     (case st of (lg, chunks) \<Rightarrow>
        (case parse_file ast_parse self f of
           (lg', Inr file_chunks) \<Rightarrow> (lg @ lg', chunks @ file_chunks)
         | (lg', Inl (SyntaxErr l m)) \<Rightarrow>
             (lg @ lg' @ [(WARNING, ''Syntax error in '' @ str_path (file_path f) @ '': ''
                                    @ str_exn (SyntaxErr l m) @ ''. Skipping file.'')], chunks)
         | (lg', Inl (Exn UnicodeDecodeError m)) \<Rightarrow>
             (lg @ lg' @ [(WARNING, ''Encoding error in '' @ str_path (file_path f) @ '': ''
                                    @ m @ ''. Skipping file.'')], chunks)
         | (lg', Inl e) \<Rightarrow>
             (lg @ lg' @ [(ERROR, ''Unexpected error parsing '' @ str_path (file_path f) @ '': ''
                                  @ str_exn e @ ''. Skipping file.'')], chunks)))"

text \<open>The body of the outer loop: one target directory.\<close>

definition dir_step ::
  "(string \<Rightarrow> ast result) \<Rightarrow> code_indexer \<Rightarrow> file_system
   \<Rightarrow> log_record list \<times> pydict list \<Rightarrow> string \<Rightarrow> log_record list \<times> pydict list" where
  "dir_step ast_parse self fs st target_dir =
     (case st of (lg, chunks) \<Rightarrow>
        (let dir_path = source_dir self @ [target_dir] in
         if \<not> path_exists fs dir_path then
           (lg @ [(WARNING, ''Directory not found: '' @ str_path dir_path @ ''. Skipping...'')],
            chunks)
         else
           foldl (file_step ast_parse self)
             (lg @ [(INFO, ''Indexing directory: '' @ str_path dir_path)], chunks)
             (rglob fs dir_path)))"

definition repr_str_list :: "string list \<Rightarrow> string" where
  "repr_str_list xs = ''['' @ join '', '' (map quoted xs) @ '']''"

text \<open>\<^verbatim>\<open>extract_code_chunks\<close>: it has no \<^verbatim>\<open>raise\<close>; it returns the list, and the log.\<close>

definition extract_code_chunks ::
  "(string \<Rightarrow> ast result) \<Rightarrow> code_indexer \<Rightarrow> file_system \<Rightarrow> log_record list \<times> pydict list" where
  "extract_code_chunks ast_parse self fs =
     (case foldl (dir_step ast_parse self fs) ([], []) (target_dirs self) of
        (lg, chunks) \<Rightarrow>
          if chunks = [] then
            (lg @ [(ERROR, ''No code chunks found! Verify that '' @ str_path (source_dir self)
                           @ '' contains Python files in '' @ repr_str_list (target_dirs self))],
             chunks)
          else
            (lg @ [(INFO, ''Successfully extracted '' @ str_nat (length chunks)
                          @ '' code chunks'')], chunks))"

text \<open>
  The syntax tree \<^verbatim>\<open>ast.parse\<close> returns for the one-line file
  \<^verbatim>\<open>def add(a, b): return a + b\<close>: a module whose body is one function definition on
  line 1, with its \<^verbatim>\<open>arguments\<close> and its \<^verbatim>\<open>Return\<close> statement below it.
\<close>

definition other :: "string \<Rightarrow> ast list \<Rightarrow> ast" where
  "other c ch = Node (OtherNode c) [] 1 (Some 1) None ch"

definition add_source :: string where
  "add_source = ''def add(a, b): return a + b''"

definition add_module :: ast where
  "add_module =
     Node Module [] 0 None None
       [Node FunctionDef ''add'' 1 (Some 1) None
          [other ''arguments'' [other ''arg'' [], other ''arg'' []],
           other ''Return''
             [other ''BinOp''
                [other ''Name'' [other ''Load'' []], other ''Add'' [],
                 other ''Name'' [other ''Load'' []]]]]]"

text \<open>
  Notions the statements about the extractor use: every node of a tree, at any depth;
  the test of the loop in \<^verbatim>\<open>_parse_file\<close>; the chunks one file contributes; and the files
  one run visits, in order.
\<close>

fun descendants :: "ast \<Rightarrow> ast list" where
  "descendants (Node c n l e d ch) = Node c n l e d ch # concat (map descendants ch)"

definition is_sync_def :: "ast \<Rightarrow> bool" where
  "is_sync_def n = (node_class n = FunctionDef \<or> node_class n = ClassDef)"

definition file_chunks ::
  "(string \<Rightarrow> ast result) \<Rightarrow> code_indexer \<Rightarrow> py_file \<Rightarrow> pydict list" where
  "file_chunks ast_parse self f =
     (case snd (parse_file ast_parse self f) of Inr chunks \<Rightarrow> chunks | Inl e \<Rightarrow> [])"

definition scanned_files :: "code_indexer \<Rightarrow> file_system \<Rightarrow> py_file list" where
  "scanned_files self fs =
     concat (map (\<lambda>d. if path_exists fs (source_dir self @ [d])
                      then rglob fs (source_dir self @ [d]) else [])
       (target_dirs self))"

section \<open>The vector store (\<^verbatim>\<open>database.py\<close>)\<close>

text \<open>
  The collection is the list of stored documents; the identifier the store adds to a
  document is not part of it here. The build script makes its calls to the world outside
  it (the check of the root path, the construction of the embedder, \<^verbatim>\<open>MongoClient\<close>,
  \<^verbatim>\<open>delete_many\<close> and \<^verbatim>\<open>insert_many\<close>) outside any \<^verbatim>\<open>try\<close>, and each of them may
  raise. What each does is given by a record: \<open>None\<close> where the call returns. A
  \<^verbatim>\<open>delete_many({})\<close> that returns leaves the collection empty, an \<^verbatim>\<open>insert_many\<close> that
  returns has appended the batch; one that raises comes with the documents the
  collection holds afterwards.
\<close>

record vector_db =
  documents :: "pydict list"

record outside =
  exists_raises :: "exn option"
  embedder_raises :: "exn option"
  connect_raises :: "exn option"
  delete_many :: "pydict list \<Rightarrow> (exn \<times> pydict list) option"
  insert_many :: "pydict list \<Rightarrow> pydict list \<Rightarrow> (exn \<times> pydict list) option"

text \<open>\<^verbatim>\<open>VectorDB()\<close>: the client and the handle on the collection the server holds.\<close>

definition VectorDB :: "outside \<Rightarrow> vector_db \<Rightarrow> vector_db result" where
  "VectorDB world store =
     (case connect_raises world of Some e \<Rightarrow> Inl e | None \<Rightarrow> Inr store)"

definition insert_chunks :: "outside \<Rightarrow> vector_db \<Rightarrow> pydict list \<Rightarrow> vector_db \<times> unit result" where
  "insert_chunks world self chunks =
     (if chunks \<noteq> [] then
        (case insert_many world (documents self) chunks of
           None \<Rightarrow> (self\<lparr>documents := documents self @ chunks\<rparr>, Inr ())
         | Some (e, held) \<Rightarrow> (self\<lparr>documents := held\<rparr>, Inl e))
      else (self, Inr ()))"

definition clear_collection :: "outside \<Rightarrow> vector_db \<Rightarrow> vector_db \<times> unit result" where
  "clear_collection world self =
     (case delete_many world (documents self) of
        None \<Rightarrow> (self\<lparr>documents := []\<rparr>, Inr ())
      | Some (e, held) \<Rightarrow> (self\<lparr>documents := held\<rparr>, Inl e))"

text \<open>The aggregation pipeline \<^verbatim>\<open>search\<close> builds: a vector search stage and a projection.\<close>

datatype projection = Exclude | Include | Meta string

record pipeline =
  index :: string
  search_path :: string
  queryVector :: "real list"
  numCandidates :: int
  limit :: int
  project :: "(string \<times> projection) list"

definition search_pipeline :: "real list \<Rightarrow> int \<Rightarrow> pipeline" where
  "search_pipeline query_vector top_k =
     \<lparr>index = ''code_vector_index'', search_path = ''embedding'', queryVector = query_vector,
      numCandidates = 100, limit = top_k,
      project = [(''_id'', Exclude), (''file_path'', Include), (''name'', Include),
                 (''type'', Include), (''code'', Include), (''docstring'', Include),
                 (''lineno'', Include), (''score'', Meta ''vectorSearchScore'')]\<rparr>"

section \<open>The build script (\<^verbatim>\<open>setup_index.py\<close>)\<close>

text \<open>
  The loop over \<^verbatim>\<open>zip(chunks, embeddings)\<close> changes each chunk in place and stops at the
  end of the shorter list; the chunks beyond it stay as they were.
\<close>

fun attach_embeddings :: "pydict list \<Rightarrow> real list list \<Rightarrow> pydict list result" where
  "attach_embeddings [] embeddings = Inr []"
| "attach_embeddings (chunk # chunks) [] = Inr (chunk # chunks)"
| "attach_embeddings (chunk # chunks) (embedding # embeddings) =
     (case delitem (setitem chunk ''embedding'' (PFloats embedding)) ''text_for_embedding'' of
        Inl e \<Rightarrow> Inl e
      | Inr chunk' \<Rightarrow>
          (case attach_embeddings chunks embeddings of
             Inl e \<Rightarrow> Inl e
           | Inr chunks' \<Rightarrow> Inr (chunk' # chunks')))"

fun embedding_texts :: "pydict list \<Rightarrow> pyval list result" where
  "embedding_texts [] = Inr []"
| "embedding_texts (chunk # chunks) =
     (case getitem chunk ''text_for_embedding'' of
        Inl e \<Rightarrow> Inl e
      | Inr t \<Rightarrow>
          (case embedding_texts chunks of Inl e \<Rightarrow> Inl e | Inr ts \<Rightarrow> Inr (t # ts)))"

record script_state =
  printed :: "string list"
  logged :: "log_record list"
  db :: vector_db

text \<open>
  \<^verbatim>\<open>main\<close>. The path typed in is \<open>YOLO_SOURCE\<close>; \<open>encode_batch\<close> is the embedder's
  \<^verbatim>\<open>encode_batch\<close>, a parameter; \<open>store\<close> is the collection as the server holds it
  when the script starts. An exception that leaves \<^verbatim>\<open>main\<close> ends the script, with what
  was printed and stored up to there.
\<close>

definition main ::
  "(string \<Rightarrow> ast result) \<Rightarrow> (pyval list \<Rightarrow> real list list result) \<Rightarrow> outside
   \<Rightarrow> file_system \<Rightarrow> path \<Rightarrow> vector_db \<Rightarrow> script_state \<times> unit result" where
  "main ast_parse encode_batch world fs YOLO_SOURCE store =
     (case exists_raises world of
        Some e \<Rightarrow> (\<lparr>printed = [], logged = [], db = store\<rparr>, Inl e)
      | None \<Rightarrow>
     if \<not> path_exists fs YOLO_SOURCE then
        (\<lparr>printed = [''Error: Directory '' @ str_path YOLO_SOURCE @ '' not found''],
          logged = [], db = store\<rparr>, Inr ())
      else
        (case extract_code_chunks ast_parse (CodeIndexer YOLO_SOURCE) fs of
           (lg, chunks) \<Rightarrow>
             (let out = [''Step 1: Extracting code chunks...'',
                         ''Found '' @ str_nat (length chunks) @ '' code chunks'',
                         ''\<newline>Step 2: Generating embeddings...''];
                  failed = (\<lambda>e. (\<lparr>printed = out, logged = lg, db = store\<rparr>, Inl e))
              in case embedder_raises world of
                   Some e \<Rightarrow> failed e
                 | None \<Rightarrow>
                (case embedding_texts chunks of
                   Inl e \<Rightarrow> failed e
                 | Inr texts \<Rightarrow>
                     (case encode_batch texts of
                        Inl e \<Rightarrow> failed e
                      | Inr embeddings \<Rightarrow>
                          (case attach_embeddings chunks embeddings of
                             Inl e \<Rightarrow> failed e
                           | Inr chunks' \<Rightarrow>
                               (let out' = out @ [''\<newline>Step 3: Uploading to MongoDB...''] in
                                case VectorDB world store of
                                  Inl e \<Rightarrow>
                                    (\<lparr>printed = out', logged = lg, db = store\<rparr>, Inl e)
                                | Inr db0 \<Rightarrow>
                                    (case clear_collection world db0 of
                                       (db1, Inl e) \<Rightarrow>
                                         (\<lparr>printed = out', logged = lg, db = db1\<rparr>, Inl e)
                                     | (db1, Inr cleared) \<Rightarrow>
                                         (case insert_chunks world db1 chunks' of
                                            (db2, Inl e) \<Rightarrow>
                                              (\<lparr>printed = out', logged = lg, db = db2\<rparr>,
                                               Inl e)
                                          | (db2, Inr inserted) \<Rightarrow>
                                              (\<lparr>printed = out' @
                                                 [''\<newline>Success! Indexed ''
                                                    @ str_nat (length chunks')
                                                    @ '' code chunks'',
                                                  ''\<newline>NEXT STEPS:'',
                                                  ''1. Create vector search index in MongoDB Atlas:'',
                                                  ''   - Index name: code_vector_index'',
                                                  ''   - Field: embedding'',
                                                  ''   - Dimensions: 384'',
                                                  ''   - Similarity: cosine'',
                                                  ''2. Run: uvicorn src.main:app --reload''],
                                                logged = lg, db = db2\<rparr>,
                                               Inr ()))))))))))"

section \<open>The answer synthesizer (\<^verbatim>\<open>generator.py\<close>)\<close>

text \<open>
  What \<^verbatim>\<open>response.json()\<close> decodes to. The checks of \<^verbatim>\<open>generate\<close> apply Python's
  truth test, \<^verbatim>\<open>in\<close> and indexing to a value of any of these types, and each of them
  raises on some: the functions below return the exception then. The wording of a
  message the interpreter writes is CPython 3.11's.
\<close>

datatype json =
  JNull | JBool bool | JInt int | JFloat real | JStr string | JArr "json list"
  | JObj "(string \<times> json) list"

fun type_name :: "json \<Rightarrow> string" where
  "type_name JNull = ''NoneType''"
| "type_name (JBool b) = ''bool''"
| "type_name (JInt i) = ''int''"
| "type_name (JFloat r) = ''float''"
| "type_name (JStr s) = ''str''"
| "type_name (JArr xs) = ''list''"
| "type_name (JObj kvs) = ''dict''"

fun truthy :: "json \<Rightarrow> bool" where
  "truthy JNull = False"
| "truthy (JBool b) = b"
| "truthy (JInt i) = (i \<noteq> 0)"
| "truthy (JFloat r) = (r \<noteq> 0)"
| "truthy (JStr s) = (s \<noteq> [])"
| "truthy (JArr xs) = (xs \<noteq> [])"
| "truthy (JObj kvs) = (kvs \<noteq> [])"

definition is_substring :: "string \<Rightarrow> string \<Rightarrow> bool" where
  "is_substring k s = list_ex (\<lambda>i. take (length k) (drop i s) = k) [0..<Suc (length s)]"

text \<open>\<^verbatim>\<open>k in x\<close> for a string \<open>k\<close>.\<close>

fun contains :: "json \<Rightarrow> string \<Rightarrow> bool result" where
  "contains (JObj kvs) k = Inr (map_of kvs k \<noteq> None)"
| "contains (JArr xs) k = Inr (JStr k \<in> set xs)"
| "contains (JStr s) k = Inr (is_substring k s)"
| "contains x k = Inl (Exn TypeError (''argument of type '' @ quoted (type_name x) @ '' is not iterable''))"

text \<open>\<^verbatim>\<open>x[k]\<close> for a string \<open>k\<close>.\<close>

fun subscript :: "json \<Rightarrow> string \<Rightarrow> json result" where
  "subscript (JObj kvs) k = (case map_of kvs k of None \<Rightarrow> Inl (key_error k) | Some v \<Rightarrow> Inr v)"
| "subscript (JArr xs) k = Inl (Exn TypeError ''list indices must be integers or slices, not str'')"
| "subscript (JStr s) k = Inl (Exn TypeError (''string indices must be integers, not ''
                                             @ quoted ''str''))"
| "subscript x k = Inl (Exn TypeError (quoted (type_name x)
                                      @ '' object is not subscriptable''))"

text \<open>\<^verbatim>\<open>x[0]\<close>.\<close>

fun first_item :: "json \<Rightarrow> json result" where
  "first_item (JArr []) = Inl (Exn IndexError ''list index out of range'')"
| "first_item (JArr (y # ys)) = Inr y"
| "first_item (JStr []) = Inl (Exn IndexError ''string index out of range'')"
| "first_item (JStr (c # cs)) = Inr (JStr [c])"
| "first_item (JObj kvs) = Inl (Exn KeyError ''0'')"
| "first_item x = Inl (Exn TypeError (quoted (type_name x)
                                     @ '' object is not subscriptable''))"

text \<open>\<^verbatim>\<open>x[:200]\<close>.\<close>

fun preview :: "json \<Rightarrow> json result" where
  "preview (JStr s) = Inr (JStr (take 200 s))"
| "preview (JArr xs) = Inr (JArr (take 200 xs))"
| "preview (JObj kvs) = Inl (Exn TypeError (''unhashable type: '' @ quoted ''slice''))"
| "preview x = Inl (Exn TypeError (quoted (type_name x)
                                  @ '' object is not subscriptable''))"

text \<open>The three \<^verbatim>\<open>data['usage'].get(...)\<close> of the token log need a dictionary.\<close>

fun usage_get :: "json \<Rightarrow> unit result" where
  "usage_get (JObj kvs) = Inr ()"
| "usage_get x = Inl (Exn AttributeError (quoted (type_name x)
                                        @ '' object has no attribute '' @ quoted ''get''))"

definition and_then :: "'a result \<Rightarrow> ('a \<Rightarrow> 'b result) \<Rightarrow> 'b result" where
  "and_then r f = (case r of Inl e \<Rightarrow> Inl e | Inr v \<Rightarrow> f v)"

text \<open>
  What is outside the repository: the encoder, the store's \<^verbatim>\<open>aggregate\<close>,
  \<^verbatim>\<open>requests.post\<close>, and Python's own formatting of a float and of a decoded payload
  inside an f-string.
\<close>

record http_request =
  url :: string
  headers :: "(string \<times> string) list"
  json_model :: string
  json_messages :: "(string \<times> string) list"
  temperature :: real
  max_tokens :: int
  timeout :: int

record http_response =
  status_code :: int
  response_text :: string
  json_body :: "json result"

record externals =
  encode :: "string \<Rightarrow> real list result"
  aggregate :: "pipeline \<Rightarrow> pydict list result"
  requests_post :: "http_request \<Rightarrow> http_response result"
  repr_float :: "real \<Rightarrow> string"
  repr_json :: "json \<Rightarrow> string"

datatype call = EncodeCall string | StoreQuery pipeline | PostCall http_request

record response_generator =
  api_key :: "string option"
  model :: string
  base_url :: string

definition ResponseGenerator :: "string option \<Rightarrow> string \<Rightarrow> response_generator" where
  "ResponseGenerator OPENROUTER_API_KEY LLM_MODEL =
     \<lparr>api_key = OPENROUTER_API_KEY, model = LLM_MODEL,
      base_url = ''https://openrouter.ai/api/v1/chat/completions''\<rparr>"

text \<open>A value of a chunk inside an f-string, and Python's truth test on it.\<close>

fun format_pyval :: "externals \<Rightarrow> pyval \<Rightarrow> string" where
  "format_pyval ext (PStr s) = s"
| "format_pyval ext (PInt i) = str_int i"
| "format_pyval ext (PFloat r) = repr_float ext r"
| "format_pyval ext (PFloats rs) = ''['' @ join '', '' (map (repr_float ext) rs) @ '']''"

fun pyval_truthy :: "pyval \<Rightarrow> bool" where
  "pyval_truthy (PStr s) = (s \<noteq> [])"
| "pyval_truthy (PInt i) = (i \<noteq> 0)"
| "pyval_truthy (PFloat r) = (r \<noteq> 0)"
| "pyval_truthy (PFloats rs) = (rs \<noteq> [])"

text \<open>
  \<^verbatim>\<open>docstring_line.split('\n')[0] if docstring_line else "No description"\<close>; only a
  string has \<^verbatim>\<open>split\<close>.
\<close>

definition purpose_of :: "pyval \<Rightarrow> string result" where
  "purpose_of docstring_line =
     (if pyval_truthy docstring_line then
        (case docstring_line of
           PStr s \<Rightarrow> (case split_on CHR ''\<newline>'' s of [] \<Rightarrow> Inl (Exn IndexError ''list index out of range'')
                      | l # ls \<Rightarrow> Inr l)
         | PInt i \<Rightarrow> Inl (Exn AttributeError (quoted ''int'' @ '' object has no attribute '' @ quoted ''split''))
         | PFloat r \<Rightarrow> Inl (Exn AttributeError (quoted ''float'' @ '' object has no attribute '' @ quoted ''split''))
         | PFloats rs \<Rightarrow> Inl (Exn AttributeError (quoted ''list'' @ '' object has no attribute '' @ quoted ''split'')))
      else Inr ''No description'')"

text \<open>One pass of the loop of \<^verbatim>\<open>_format_context\<close>: the block of chunk \<open>i\<close> of \<open>total\<close>.\<close>

definition format_chunk :: "externals \<Rightarrow> nat \<Rightarrow> nat \<Rightarrow> pydict \<Rightarrow> string result" where
  "format_chunk ext total_chunks i chunk =
     (let docstring_line = (case map_of chunk ''docstring'' of None \<Rightarrow> PStr [] | Some v \<Rightarrow> v) in
      and_then (purpose_of docstring_line) (\<lambda>purpose.
      and_then (getitem chunk ''file_path'') (\<lambda>file_path.
      and_then (getitem chunk ''name'') (\<lambda>name.
      and_then (getitem chunk ''type'') (\<lambda>type.
      and_then (getitem chunk ''lineno'') (\<lambda>lineno.
      and_then (getitem chunk ''code'') (\<lambda>code.
        Inr (''=== CODE CHUNK ['' @ str_nat i @ ''/'' @ str_nat total_chunks @ ''] ===\<newline>''
             @ ''File: '' @ format_pyval ext file_path @ ''\<newline>''
             @ ''Function/Class: '' @ format_pyval ext name
             @ '' ('' @ format_pyval ext type @ '')\<newline>''
             @ ''Lines: '' @ format_pyval ext lineno @ ''\<newline>''
             @ ''Purpose: '' @ purpose @ ''\<newline>''
             @ ''---\<newline>''
             @ format_pyval ext code @ ''\<newline>''
             @ replicate 30 CHR ''=''))))))))"

fun format_chunks :: "externals \<Rightarrow> nat \<Rightarrow> nat \<Rightarrow> pydict list \<Rightarrow> string list result" where
  "format_chunks ext total_chunks i [] = Inr []"
| "format_chunks ext total_chunks i (chunk # rest) =
     and_then (format_chunk ext total_chunks i chunk) (\<lambda>block.
     and_then (format_chunks ext total_chunks (Suc i) rest) (\<lambda>blocks.
       Inr (block # blocks)))"

definition format_context :: "externals \<Rightarrow> pydict list \<Rightarrow> string result" where
  "format_context ext chunks =
     and_then (format_chunks ext (length chunks) 1 chunks) (\<lambda>formatted.
       Inr (join ''\<newline>\<newline>'' formatted))"

text \<open>The debug loop of \<^verbatim>\<open>generate\<close> over the chunks; its f-string reads four keys.\<close>

fun debug_chunks :: "externals \<Rightarrow> nat \<Rightarrow> pydict list \<Rightarrow> string list result" where
  "debug_chunks ext i [] = Inr []"
| "debug_chunks ext i (chunk # rest) =
     and_then (getitem chunk ''name'') (\<lambda>name.
     and_then (getitem chunk ''type'') (\<lambda>type.
     and_then (getitem chunk ''file_path'') (\<lambda>file_path.
     and_then (getitem chunk ''lineno'') (\<lambda>lineno.
     and_then (debug_chunks ext (Suc i) rest) (\<lambda>lines.
       Inr ((''['' @ str_nat i @ ''] '' @ format_pyval ext name @ '' ('' @ format_pyval ext type
             @ '') - '' @ format_pyval ext file_path @ '':'' @ format_pyval ext lineno)
            # lines))))))"

definition prompt_of :: "string \<Rightarrow> string \<Rightarrow> string" where
  "prompt_of context question =
     join ''\<newline>''
       [''You are an expert assistant for the Ultralytics YOLO codebase. Your role is to help developers understand and use YOLO by analyzing source code.'',
        '''',
        ''INSTRUCTIONS:'',
        ''1. Answer ONLY using the provided code context below'',
        ''2. Provide working code examples when applicableAlso cite specific files and line numbers when referencing code'',
        ''3. If the context doesn't fully answer the question, say so explicitly'',
        ''4. For standard YOLO questions, prefer basic implementations over specialized variants'',
        '''',
        ''CODE CONTEXT:'',
        context,
        '''',
        ''QUESTION: '' @ question,
        '''',
        ''RESPONSE FORMAT:'',
        ''- Start with a direct answer in few sentences'',
        ''- Provide a minimal working example if applicable'',
        ''- Explain implementation details with code references'',
        ''- Note any caveats or limitations'']"

definition request_of :: "response_generator \<Rightarrow> string \<Rightarrow> http_request" where
  "request_of self prompt =
     \<lparr>url = base_url self,
      headers = [(''Authorization'',
                    ''Bearer '' @ (case api_key self of None \<Rightarrow> ''None'' | Some k \<Rightarrow> k)),
                 (''HTTP-Referer'', ''http://localhost:8501''),
                 (''X-Title'', ''YOLO Code Assistant''),
                 (''Content-Type'', ''application/json'')],
      json_model = model self,
      json_messages = [(''user'', prompt)],
      temperature = 6 / 10,
      max_tokens = 1000,
      timeout = 60\<rparr>"

text \<open>The checks of the decoded payload inside \<^verbatim>\<open>try\<close>, in the order of the source.\<close>

definition read_answer :: "externals \<Rightarrow> json \<Rightarrow> json result" where
  "read_answer ext data =
     (if \<not> truthy data then Inl (Exn ValueError ''Empty response from API'')
      else and_then (contains data ''choices'') (\<lambda>has_choices.
        if \<not> has_choices then
          Inl (Exn ValueError (''No 'choices' in response. Got: '' @ repr_json ext data))
        else and_then (subscript data ''choices'') (\<lambda>choices.
          if \<not> truthy choices then Inl (Exn ValueError ''Empty 'choices' array in response'')
          else and_then (first_item choices) (\<lambda>choice.
            and_then (contains choice ''message'') (\<lambda>has_message.
              if \<not> has_message then
                Inl (Exn ValueError (''No 'message' in choice. Got: '' @ repr_json ext choice))
              else and_then (subscript choice ''message'') (\<lambda>message.
                and_then (contains message ''content'') (\<lambda>has_content.
                  if \<not> has_content then
                    Inl (Exn ValueError
                           (''No 'content' in message. Got: '' @ repr_json ext message))
                  else and_then (subscript message ''content'') (\<lambda>answer.
                    and_then (preview answer) (\<lambda>shown.
                      and_then (contains data ''usage'') (\<lambda>has_usage.
                        if has_usage then
                          and_then (subscript data ''usage'') (\<lambda>usage.
                            and_then (usage_get usage) (\<lambda>u. Inr answer))
                        else Inr answer))))))))))"

text \<open>The body of \<^verbatim>\<open>try\<close> in \<^verbatim>\<open>generate\<close>, with the remote call it makes.\<close>

definition try_body ::
  "externals \<Rightarrow> response_generator \<Rightarrow> http_request \<Rightarrow> call list \<times> json result" where
  "try_body ext self payload =
     (if api_key self = None \<or> api_key self = Some [] \<or> api_key self = Some ''None'' then
        ([], Inl (Exn ValueError ''OPENROUTER_API_KEY not found in .env file!''))
      else
        (case requests_post ext payload of
           Inl e \<Rightarrow> ([PostCall payload], Inl e)
         | Inr response \<Rightarrow>
             ([PostCall payload],
              if status_code response \<noteq> 200 then
                Inl (Exn PlainException
                      (''API returned '' @ str_int (status_code response) @ '': ''
                       @ response_text response))
              else and_then (json_body response) (read_answer ext))))"

text \<open>
  \<^verbatim>\<open>generate\<close>. \<^verbatim>\<open>_format_context\<close> and the debug loop run before \<^verbatim>\<open>try\<close>; the
  \<^verbatim>\<open>except Exception\<close> clause turns whatever the body raises into the returned string.
\<close>

definition generate ::
  "externals \<Rightarrow> response_generator \<Rightarrow> string \<Rightarrow> pydict list \<Rightarrow> call list \<times> json result" where
  "generate ext self question context_chunks =
     (case format_context ext context_chunks of
        Inl e \<Rightarrow> ([], Inl e)
      | Inr context \<Rightarrow>
          (let prompt = prompt_of context question in
           case debug_chunks ext 1 context_chunks of
             Inl e \<Rightarrow> ([], Inl e)
           | Inr debug_lines \<Rightarrow>
               (case try_body ext self (request_of self prompt) of
                  (calls, Inl e) \<Rightarrow>
                    (calls, Inr (JStr (''Error generating response: '' @ str_exn e)))
                | (calls, Inr answer) \<Rightarrow> (calls, Inr answer))))"

section \<open>The HTTP handler (\<^verbatim>\<open>main.py\<close>) and \<^verbatim>\<open>VectorDB.search\<close>\<close>

definition search :: "externals \<Rightarrow> real list \<Rightarrow> int \<Rightarrow> call list \<times> pydict list result" where
  "search ext query_vector top_k =
     (let pipeline = search_pipeline query_vector top_k
      in ([StoreQuery pipeline], aggregate ext pipeline))"

record question_request =
  question :: string
  top_k :: int

record answer_response =
  response_question :: string
  answer :: string
  sources :: "pydict list"

fun format_sources :: "pydict list \<Rightarrow> pydict list result" where
  "format_sources [] = Inr []"
| "format_sources (r # results) =
     and_then (getitem r ''file_path'') (\<lambda>file_path.
     and_then (getitem r ''name'') (\<lambda>name.
     and_then (getitem r ''type'') (\<lambda>type.
     and_then (getitem r ''lineno'') (\<lambda>lineno.
     and_then (format_sources results) (\<lambda>sources.
       Inr ([(''file'', file_path), (''name'', name), (''type'', type), (''line'', lineno)]
            # sources))))))"

text \<open>
  The body of \<^verbatim>\<open>try\<close> in \<^verbatim>\<open>ask_question\<close>, with the calls it makes, in order. The
  response model takes a string for \<^verbatim>\<open>answer\<close>.
\<close>

definition ask_body ::
  "externals \<Rightarrow> response_generator \<Rightarrow> question_request \<Rightarrow> call list \<times> answer_response result" where
  "ask_body ext generator request =
     (case encode ext (question request) of
        Inl e \<Rightarrow> ([EncodeCall (question request)], Inl e)
      | Inr query_vector \<Rightarrow>
          (case search ext query_vector (top_k request) of
             (calls, Inl e) \<Rightarrow> (EncodeCall (question request) # calls, Inl e)
           | (calls, Inr results) \<Rightarrow>
               if results = [] then
                 (EncodeCall (question request) # calls,
                  Inl (HTTPException 404 ''No relevant code found''))
               else
                 (case generate ext generator (question request) results of
                    (calls', Inl e) \<Rightarrow> (EncodeCall (question request) # calls @ calls', Inl e)
                  | (calls', Inr answer') \<Rightarrow>
                      (EncodeCall (question request) # calls @ calls',
                       and_then (format_sources results) (\<lambda>sources.
                         case answer' of
                           JStr a \<Rightarrow>
                             Inr \<lparr>response_question = question request, answer = a,
                                  sources = sources\<rparr>
                         | _ \<Rightarrow>
                             Inl (Exn ValidationError
                                   ''1 validation error for AnswerResponse''))))))"

text \<open>
  \<^verbatim>\<open>ask_question\<close>: the \<^verbatim>\<open>except Exception\<close> clause around the body catches every
  exception the body raises, the \<^verbatim>\<open>HTTPException\<close> of the body included, and raises
  \<^verbatim>\<open>HTTPException(status_code=500, detail=str(e))\<close>.
\<close>

definition ask_question ::
  "externals \<Rightarrow> response_generator \<Rightarrow> question_request \<Rightarrow> call list \<times> answer_response result" where
  "ask_question ext generator request =
     (case ask_body ext generator request of
        (calls, Inl e) \<Rightarrow> (calls, Inl (HTTPException 500 (str_exn e)))
      | (calls, Inr response) \<Rightarrow> (calls, Inr response))"

text \<open>The status the caller of the endpoint sees.\<close>

fun http_status :: "answer_response result \<Rightarrow> int" where
  "http_status (Inr response) = 200"
| "http_status (Inl (HTTPException s d)) = s"
| "http_status (Inl e) = 500"

text \<open>
  The record the \<^verbatim>\<open>SyntaxError\<close> handler of \<^verbatim>\<open>extract_code_chunks\<close> writes for a file,
  given the line and the message of the parser's error.
\<close>

definition syntax_warning :: "py_file \<Rightarrow> int option \<Rightarrow> string \<Rightarrow> log_record" where
  "syntax_warning f l m =
     (WARNING, ''Syntax error in '' @ str_path (file_path f)
               @ '': Invalid Python syntax at line ''
               @ (case l of None \<Rightarrow> ''None'' | Some n \<Rightarrow> str_int n) @ '': '' @ m
               @ ''. Skipping file.'')"

section \<open>Concrete source trees\<close>

text \<open>
  A second file, \<^verbatim>\<open>nested.py\<close>: an \<^verbatim>\<open>async def fetch\<close> on line 1 with a nested
  \<^verbatim>\<open>def helper\<close> on lines 2 and 3, and a \<^verbatim>\<open>class A\<close> on line 4 with a method
  \<^verbatim>\<open>def m\<close> on lines 5 and 6. A third, \<^verbatim>\<open>broken.py\<close>, does not parse.
\<close>

definition nested_source :: string where
  "nested_source = join ''\<newline>''
     [''async def fetch():'', ''    def helper():'', ''        pass'',
      ''class A:'', ''    def m(self):'', ''        pass'']"

definition nested_module :: ast where
  "nested_module =
     Node Module [] 0 None None
       [Node AsyncFunctionDef ''fetch'' 1 (Some 3) None
          [other ''arguments'' [],
           Node FunctionDef ''helper'' 2 (Some 3) None
             [other ''arguments'' [], other ''Pass'' []]],
        Node ClassDef ''A'' 4 (Some 6) None
          [Node FunctionDef ''m'' 5 (Some 6) None
             [other ''arguments'' [other ''arg'' []], other ''Pass'' []]]]"

definition broken_source :: string where
  "broken_source = ''def broken(:''"

definition demo_parse :: "string \<Rightarrow> ast result" where
  "demo_parse s =
     (if s = add_source then Inr add_module
      else if s = nested_source then Inr nested_module
      else Inl (SyntaxErr (Some 1) ''invalid syntax''))"

definition source_file :: "string \<Rightarrow> string \<Rightarrow> py_file" where
  "source_file file_name source =
     \<lparr>file_path = [''repo'', ''models'', file_name], read_utf8 = Inr source,
      read_latin1 = Inr source\<rparr>"

definition add_file :: py_file where
  "add_file = source_file ''add.py'' add_source"

definition nested_file :: py_file where
  "nested_file = source_file ''nested.py'' nested_source"

definition broken_file :: py_file where
  "broken_file = source_file ''broken.py'' broken_source"

text \<open>A tree \<^verbatim>\<open>repo\<close> whose only target directory is \<^verbatim>\<open>models\<close>, holding the given files.\<close>

definition repo_with :: "py_file list \<Rightarrow> file_system" where
  "repo_with files =
     \<lparr>path_exists = (\<lambda>p. p = [''repo''] \<or> p = [''repo'', ''models'']),
      rglob = (\<lambda>p. if p = [''repo'', ''models''] then files else [])\<rparr>"

definition add_chunk :: pydict where
  "add_chunk =
     [(''file_path'', PStr ''models/add.py''), (''name'', PStr ''add''),
      (''type'', PStr ''function''), (''code'', PStr ''def add(a, b): return a + b''),
      (''docstring'', PStr ''''), (''lineno'', PInt 1),
      (''text_for_embedding'', PStr ''add\<newline>\<newline>def add(a, b): return a + b'')]"




text \<open>An encoder that returns one vector for each text.\<close>

definition demo_encode_batch :: "pyval list \<Rightarrow> real list list result" where
  "demo_encode_batch texts = Inr (map (\<lambda>t. [1 / 2, 1 / 4]) texts)"

text \<open>A world in which every call of the build script returns.\<close>

definition all_return :: outside where
  "all_return =
     \<lparr>exists_raises = None, embedder_raises = None, connect_raises = None,
      delete_many = (\<lambda>held. None), insert_many = (\<lambda>held batch. None)\<rparr>"

section \<open>Concrete collaborators of the query path\<close>

text \<open>
  A record as \<^verbatim>\<open>search\<close> returns it (the projection of a stored chunk, with its score),
  and one whose \<^verbatim>\<open>code\<close> key is missing.
\<close>

definition retrieved_chunk :: pydict where
  "retrieved_chunk =
     [(''file_path'', PStr ''models/add.py''), (''name'', PStr ''add''),
      (''type'', PStr ''function''), (''code'', PStr ''def add(a, b): return a + b''),
      (''docstring'', PStr ''''), (''lineno'', PInt 1), (''score'', PFloat (9 / 10))]"

definition malformed_chunk :: pydict where
  "malformed_chunk =
     [(''file_path'', PStr ''models/add.py''), (''name'', PStr ''add''),
      (''type'', PStr ''function''), (''docstring'', PStr ''''), (''lineno'', PInt 1),
      (''score'', PFloat (9 / 10))]"

definition demo_generator :: response_generator where
  "demo_generator = ResponseGenerator (Some ''sk-or-demo'') ''nvidia/nemotron-3-nano-30b-a3b:free''"

text \<open>
  An encoder that always answers, a store that holds one record and fails a query whose
  limit is not positive, and a generation service that answers every call with status
  429.
\<close>

definition demo_ext :: externals where
  "demo_ext =
     \<lparr>encode = (\<lambda>text. Inr [1 / 2, 1 / 4]),
      aggregate = (\<lambda>p. if limit p \<le> 0
                         then Inl (Exn OperationFailure ''limit must be a positive integer'')
                         else Inr [retrieved_chunk]),
      requests_post = (\<lambda>r. Inr \<lparr>status_code = 429, response_text = ''rate limit exceeded'',
                                  json_body = Inl (Exn JSONDecodeError ''Expecting value'')\<rparr>),
      repr_float = (\<lambda>r. ''0.9''),
      repr_json = (\<lambda>j. ''{}'')\<rparr>"

text \<open>The same collaborators over an empty index: every query returns no record.\<close>

definition empty_index_ext :: externals where
  "empty_index_ext = demo_ext\<lparr>aggregate := (\<lambda>p. Inr [])\<rparr>"

text \<open>The same collaborators with a store that is down.\<close>

definition store_down_ext :: externals where
  "store_down_ext =
     demo_ext\<lparr>aggregate := (\<lambda>p. Inl (Exn OperationFailure ''connection refused''))\<rparr>"

section \<open>Properties of the unit extractor\<close>

lemma set_walk_queue: "set (walk_queue q) = (\<Union>t \<in> set q. set (descendants t))"
  by (induction q rule: walk_queue.induct) auto

lemma count_walk_queue:
  "length (filter P (walk_queue q)) = sum_list (map (\<lambda>t. length (filter P (descendants t))) q)"
proof (induction q rule: walk_queue.induct)
  case 1
  show ?case by simp
next
  case (2 c n l e d ch todo)
  have "sum_list (map (\<lambda>t. length (filter P (descendants t))) ch)
        = length (filter P (concat (map descendants ch)))"
    by (induction ch) auto
  with 2 show ?case by simp
qed

lemma walk_loop_chunks:
  "snd (walk_loop self source fp (lg, cs) ns) =
     cs @ List.map_filter (\<lambda>n. snd (extract_node self n source fp)) (filter is_sync_def ns)"
proof (induction ns arbitrary: lg cs)
  case Nil
  show ?case by (simp add: List.map_filter_simps)
next
  case (Cons n ns)
  show ?case
  proof (cases "extract_node self n source fp")
    case (Pair lg' r)
    then show ?thesis using Cons
      by (cases r) (auto simp: List.map_filter_simps is_sync_def_def)
  qed
qed

lemma parse_file_chunks:
  assumes "snd (read_source f) = Inr source" and "ast_parse source = Inr tree"
  shows "snd (parse_file ast_parse self f) =
           Inr (List.map_filter (\<lambda>n. snd (extract_node self n source (file_path f)))
                  (filter is_sync_def (walk tree)))"
proof -
  obtain lg where rs: "read_source f = (lg, Inr source)"
    using assms(1) by (cases "read_source f") auto
  obtain lg' cs where wl: "walk_loop self source (file_path f) (lg, []) (walk tree) = (lg', cs)"
    by (cases "walk_loop self source (file_path f) (lg, []) (walk tree)") auto
  have "cs = List.map_filter (\<lambda>n. snd (extract_node self n source (file_path f)))
               (filter is_sync_def (walk tree))"
    using walk_loop_chunks [of self source "file_path f" lg "[]" "walk tree"] wl by simp
  then show ?thesis
    by (simp add: parse_file_def rs assms(2) wl)
qed

lemma parse_file_syntax_error:
  assumes "snd (read_source f) = Inr source" and "ast_parse source = Inl (SyntaxErr l m)"
  shows "snd (parse_file ast_parse self f) =
           Inl (SyntaxErr None (''Invalid Python syntax at line ''
                  @ (case l of None \<Rightarrow> ''None'' | Some n \<Rightarrow> str_int n) @ '': '' @ m))"
proof -
  obtain lg where rs: "read_source f = (lg, Inr source)"
    using assms(1) by (cases "read_source f") auto
  show ?thesis by (simp add: parse_file_def rs assms(2))
qed

lemma file_step_chunks:
  "snd (file_step ast_parse self (lg, cs) f) = cs @ file_chunks ast_parse self f"
  by (auto simp: file_step_def file_chunks_def
           split: prod.splits sum.splits exn.splits exn_class.splits)

lemma foldl_file_step_chunks:
  "snd (foldl (file_step ast_parse self) st fs) =
     snd st @ concat (map (file_chunks ast_parse self) fs)"
proof (induction fs arbitrary: st)
  case Nil
  show ?case by simp
next
  case (Cons f fs)
  obtain lg cs where st: "st = (lg, cs)" by (cases st)
  show ?case
    using Cons [of "file_step ast_parse self (lg, cs) f"]
      file_step_chunks [of ast_parse self lg cs f]
    by (simp add: st)
qed

lemma foldl_dir_step_chunks:
  "snd (foldl (dir_step ast_parse self fs) st ds) =
     snd st @ concat (map (file_chunks ast_parse self)
       (concat (map (\<lambda>d. if path_exists fs (source_dir self @ [d])
                         then rglob fs (source_dir self @ [d]) else []) ds)))"
proof (induction ds arbitrary: st)
  case Nil
  show ?case by simp
next
  case (Cons d ds)
  obtain lg cs where st: "st = (lg, cs)" by (cases st)
  show ?case using Cons [of "dir_step ast_parse self fs (lg, cs) d"]
    by (simp add: st dir_step_def Let_def foldl_file_step_chunks)
qed

lemma extract_code_chunks_chunks:
  "snd (extract_code_chunks ast_parse self fs) =
     concat (map (file_chunks ast_parse self) (scanned_files self fs))"
  using foldl_dir_step_chunks [of ast_parse self fs "([], [])" "target_dirs self"]
  by (auto simp: extract_code_chunks_def scanned_files_def split: prod.splits)

text \<open>The log only grows, and a file that fails to parse leaves its warning in it.\<close>

lemma file_step_log_mono: "set (fst st) \<subseteq> set (fst (file_step ast_parse self st f))"
  by (cases st)
     (auto simp: file_step_def split: prod.splits sum.splits exn.splits exn_class.splits)

lemma foldl_file_step_log_mono:
  "set (fst st) \<subseteq> set (fst (foldl (file_step ast_parse self) st fs))"
proof (induction fs arbitrary: st)
  case Nil
  show ?case by simp
next
  case (Cons f fs)
  show ?case
    using Cons [of "file_step ast_parse self st f"] file_step_log_mono [of st ast_parse self f]
    by auto
qed

lemma dir_step_log_mono: "set (fst st) \<subseteq> set (fst (dir_step ast_parse self fs st d))"
proof (cases st)
  case (Pair lg cs)
  show ?thesis
    using foldl_file_step_log_mono
      [of "(lg @ [(INFO, ''Indexing directory: '' @ str_path (source_dir self @ [d]))], cs)"
          ast_parse self "rglob fs (source_dir self @ [d])"]
    by (auto simp: Pair dir_step_def Let_def)
qed

lemma foldl_dir_step_log_mono:
  "set (fst st) \<subseteq> set (fst (foldl (dir_step ast_parse self fs) st ds))"
proof (induction ds arbitrary: st)
  case Nil
  show ?case by simp
next
  case (Cons d ds)
  show ?case
    using Cons [of "dir_step ast_parse self fs st d"] dir_step_log_mono [of st ast_parse self fs d]
    by auto
qed

lemma file_step_syntax_warning:
  assumes "snd (read_source f) = Inr source" and "ast_parse source = Inl (SyntaxErr l m)"
  shows "syntax_warning f l m \<in> set (fst (file_step ast_parse self st f))"
proof -
  obtain lg' where pf: "parse_file ast_parse self f =
      (lg', Inl (SyntaxErr None (''Invalid Python syntax at line ''
                  @ (case l of None \<Rightarrow> ''None'' | Some n \<Rightarrow> str_int n) @ '': '' @ m)))"
    using parse_file_syntax_error [where ast_parse = ast_parse and self = self, OF assms]
    by (cases "parse_file ast_parse self f") auto
  show ?thesis
    by (cases st) (simp add: file_step_def pf syntax_warning_def)
qed

lemma foldl_file_step_syntax_warning:
  assumes "f \<in> set fs" and "snd (read_source f) = Inr source"
    and "ast_parse source = Inl (SyntaxErr l m)"
  shows "syntax_warning f l m \<in> set (fst (foldl (file_step ast_parse self) st fs))"
  using assms(1)
proof (induction fs arbitrary: st)
  case Nil
  then show ?case by simp
next
  case (Cons g gs)
  show ?case
  proof (cases "f = g")
    case True
    then show ?thesis
      using file_step_syntax_warning [where ast_parse = ast_parse and self = self and st = st, OF assms(2,3)]
        foldl_file_step_log_mono [of "file_step ast_parse self st g" ast_parse self gs]
      by auto
  next
    case False
    then show ?thesis using Cons by simp
  qed
qed

lemma foldl_dir_step_syntax_warning:
  assumes "f \<in> set (concat (map (\<lambda>d. if path_exists fs (source_dir self @ [d])
                         then rglob fs (source_dir self @ [d]) else []) ds))"
    and "snd (read_source f) = Inr source"
    and "ast_parse source = Inl (SyntaxErr l m)"
  shows "syntax_warning f l m \<in> set (fst (foldl (dir_step ast_parse self fs) st ds))"
  using assms(1)
proof (induction ds arbitrary: st)
  case Nil
  then show ?case by simp
next
  case (Cons d ds)
  show ?case
  proof (cases "path_exists fs (source_dir self @ [d]) \<and> f \<in> set (rglob fs (source_dir self @ [d]))")
    case True
    obtain lg cs where st: "st = (lg, cs)" by (cases st)
    have "syntax_warning f l m \<in> set (fst (dir_step ast_parse self fs st d))"
      using True foldl_file_step_syntax_warning
          [where ast_parse = ast_parse and self = self and fs = "rglob fs (source_dir self @ [d])",
           OF _ assms(2,3)]
      by (simp add: st dir_step_def Let_def)
    then show ?thesis
      using foldl_dir_step_log_mono [of "dir_step ast_parse self fs st d" ast_parse self fs ds]
      by auto
  next
    case False
    then have "f \<in> set (concat (map (\<lambda>d. if path_exists fs (source_dir self @ [d])
                         then rglob fs (source_dir self @ [d]) else []) ds))"
      using Cons.prems by (auto split: if_splits)
    then show ?thesis using Cons.IH by simp
  qed
qed

lemma extract_code_chunks_syntax_warning:
  assumes "f \<in> set (scanned_files self fs)" and "snd (read_source f) = Inr source"
    and "ast_parse source = Inl (SyntaxErr l m)"
  shows "syntax_warning f l m \<in> set (fst (extract_code_chunks ast_parse self fs))"
  using foldl_dir_step_syntax_warning
      [where ast_parse = ast_parse and self = self and fs = fs and ds = "target_dirs self"
         and st = "([], [])", OF _ assms(2,3)]
    assms(1)
  by (auto simp: extract_code_chunks_def scanned_files_def split: prod.splits)

lemma file_chunks_syntax_error:
  assumes "snd (read_source f) = Inr source" and "ast_parse source = Inl (SyntaxErr l m)"
  shows "file_chunks ast_parse self f = []"
  by (simp add: file_chunks_def
        parse_file_syntax_error [where ast_parse = ast_parse and self = self, OF assms])

section \<open>Properties of the chunks and of the build script\<close>




text \<open>Every chunk \<^verbatim>\<open>_extract_node\<close> returns is the seven-key dictionary of its source.\<close>

lemma extract_node_shape:
  assumes "snd (extract_node self node source fp) = Some chunk"
  shows "\<exists>p n t c d l. chunk =
           [(''file_path'', PStr p), (''name'', PStr n), (''type'', PStr t), (''code'', PStr c),
            (''docstring'', PStr d), (''lineno'', PInt l),
            (''text_for_embedding'', PStr (n @ ''\<newline>'' @ d @ ''\<newline>'' @ c))]"
  using assms by (auto simp: extract_node_def Let_def split: sum.splits)

lemma set_map_filter: "set (List.map_filter g xs) = {y. \<exists>x \<in> set xs. g x = Some y}"
  by (induction xs) (auto simp: List.map_filter_simps split: option.splits)

lemma file_chunks_from_nodes:
  assumes "chunk \<in> set (file_chunks ast_parse self f)"
  shows "\<exists>node source. snd (extract_node self node source (file_path f)) = Some chunk"
proof -
  obtain lg r where rs: "read_source f = (lg, r)"
    by (cases "read_source f") auto
  show ?thesis
  proof (cases r)
    case (Inl e)
    then show ?thesis
      using assms by (simp add: file_chunks_def parse_file_def rs)
  next
    case (Inr source)
    show ?thesis
    proof (cases "ast_parse source")
      case (Inl e)
      then show ?thesis
        using assms Inr
        by (cases e) (auto simp: file_chunks_def parse_file_def rs)
    next
      case tree: (Inr tree)
      have "snd (read_source f) = Inr source"
        by (simp add: rs Inr)
      then have "file_chunks ast_parse self f =
          List.map_filter (\<lambda>n. snd (extract_node self n source (file_path f)))
            (filter is_sync_def (walk tree))"
        using parse_file_chunks [where ast_parse = ast_parse and self = self and f = f
            and source = source and tree = tree] tree
        by (simp add: file_chunks_def)
      then show ?thesis
        using assms by (auto simp: set_map_filter)
    qed
  qed
qed

lemma extracted_chunk_shape:
  assumes "chunk \<in> set (snd (extract_code_chunks ast_parse self fs))"
  shows "\<exists>p n t c d l. chunk =
           [(''file_path'', PStr p), (''name'', PStr n), (''type'', PStr t), (''code'', PStr c),
            (''docstring'', PStr d), (''lineno'', PInt l),
            (''text_for_embedding'', PStr (n @ ''\<newline>'' @ d @ ''\<newline>'' @ c))]"
proof -
  obtain f where "chunk \<in> set (file_chunks ast_parse self f)"
    using assms by (auto simp: extract_code_chunks_chunks)
  then obtain node source where
    "snd (extract_node self node source (file_path f)) = Some chunk"
    using file_chunks_from_nodes by blast
  then show ?thesis by (rule extract_node_shape)
qed

lemma embedding_texts_total:
  assumes "\<forall>chunk \<in> set chunks. \<exists>t. map_of chunk ''text_for_embedding'' = Some t"
  shows "\<exists>texts. embedding_texts chunks = Inr texts \<and> length texts = length chunks
           \<and> (\<forall>i < length chunks. map_of (chunks ! i) ''text_for_embedding'' = Some (texts ! i))"
  using assms
proof (induction chunks)
  case Nil
  show ?case by simp
next
  case (Cons chunk chunks)
  obtain t where t: "map_of chunk ''text_for_embedding'' = Some t"
    using Cons.prems by auto
  obtain texts where texts: "embedding_texts chunks = Inr texts" "length texts = length chunks"
    "\<forall>i < length chunks. map_of (chunks ! i) ''text_for_embedding'' = Some (texts ! i)"
    using Cons by auto
  have "\<forall>i < length (chunk # chunks).
      map_of ((chunk # chunks) ! i) ''text_for_embedding'' = Some ((t # texts) ! i)"
    using t texts(3) by (auto simp: nth_Cons split: nat.splits)
  then show ?case
    using t texts(1,2) by (auto simp: getitem_def)
qed

text \<open>What one pass of the loop over \<^verbatim>\<open>zip(chunks, embeddings)\<close> leaves of a chunk.\<close>

lemma attach_one:
  assumes "map_of chunk ''text_for_embedding'' = Some t"
  shows "\<exists>chunk'. delitem (setitem chunk ''embedding'' (PFloats e)) ''text_for_embedding''
             = Inr chunk'
           \<and> map_of chunk' ''text_for_embedding'' = None
           \<and> map_of chunk' ''embedding'' = Some (PFloats e)
           \<and> (\<forall>k. k \<noteq> ''text_for_embedding'' \<and> k \<noteq> ''embedding''
                  \<longrightarrow> map_of chunk' k = map_of chunk k)"
  using assms
  by (auto simp: delitem_def setitem_def update_conv' delete_conv')

lemma attach_embeddings_total:
  assumes "\<forall>chunk \<in> set chunks. \<exists>t. map_of chunk ''text_for_embedding'' = Some t"
    and "length embeddings = length chunks"
  shows "\<exists>chunks'. attach_embeddings chunks embeddings = Inr chunks'
           \<and> length chunks' = length chunks
           \<and> (\<forall>i < length chunks.
                 map_of (chunks' ! i) ''text_for_embedding'' = None
               \<and> map_of (chunks' ! i) ''embedding'' = Some (PFloats (embeddings ! i))
               \<and> (\<forall>k. k \<noteq> ''text_for_embedding'' \<and> k \<noteq> ''embedding''
                      \<longrightarrow> map_of (chunks' ! i) k = map_of (chunks ! i) k))"
  using assms
proof (induction chunks embeddings rule: attach_embeddings.induct)
  case (1 embeddings)
  show ?case by simp
next
  case (2 chunk chunks)
  then show ?case by simp
next
  case (3 chunk chunks e embeddings)
  obtain t where t: "map_of chunk ''text_for_embedding'' = Some t"
    using "3.prems" by auto
  obtain chunk' where c': "delitem (setitem chunk ''embedding'' (PFloats e)) ''text_for_embedding''
      = Inr chunk'"
    "map_of chunk' ''text_for_embedding'' = None"
    "map_of chunk' ''embedding'' = Some (PFloats e)"
    "\<forall>k. k \<noteq> ''text_for_embedding'' \<and> k \<noteq> ''embedding'' \<longrightarrow> map_of chunk' k = map_of chunk k"
    using attach_one [OF t, of e] by blast
  obtain chunks' where cs': "attach_embeddings chunks embeddings = Inr chunks'"
    "length chunks' = length chunks"
    "\<forall>i < length chunks.
        map_of (chunks' ! i) ''text_for_embedding'' = None
      \<and> map_of (chunks' ! i) ''embedding'' = Some (PFloats (embeddings ! i))
      \<and> (\<forall>k. k \<noteq> ''text_for_embedding'' \<and> k \<noteq> ''embedding''
             \<longrightarrow> map_of (chunks' ! i) k = map_of (chunks ! i) k)"
    using "3.IH" [OF c'(1)] "3.prems" by auto
  have "\<forall>i < length (chunk # chunks).
        map_of ((chunk' # chunks') ! i) ''text_for_embedding'' = None
      \<and> map_of ((chunk' # chunks') ! i) ''embedding'' = Some (PFloats ((e # embeddings) ! i))
      \<and> (\<forall>k. k \<noteq> ''text_for_embedding'' \<and> k \<noteq> ''embedding''
             \<longrightarrow> map_of ((chunk' # chunks') ! i) k = map_of ((chunk # chunks) ! i) k)"
  proof (intro allI impI)
    fix i assume "i < length (chunk # chunks)"
    then show "map_of ((chunk' # chunks') ! i) ''text_for_embedding'' = None
      \<and> map_of ((chunk' # chunks') ! i) ''embedding'' = Some (PFloats ((e # embeddings) ! i))
      \<and> (\<forall>k. k \<noteq> ''text_for_embedding'' \<and> k \<noteq> ''embedding''
             \<longrightarrow> map_of ((chunk' # chunks') ! i) k = map_of ((chunk # chunks) ! i) k)"
      using c'(2,3,4) cs'(3) by (cases i) auto
  qed
  then show ?case
    using c'(1) cs'(1,2) by auto
qed

text \<open>A build that ends normally past the root check has gone through every step.\<close>

lemma main_ends_normally:
  assumes root: "path_exists fs src"
    and run: "main ast_parse encode_batch world fs src store = (st, Inr ())"
  shows "\<exists>texts embeddings chunks'.
           embedding_texts (snd (extract_code_chunks ast_parse (CodeIndexer src) fs)) = Inr texts
         \<and> encode_batch texts = Inr embeddings
         \<and> attach_embeddings (snd (extract_code_chunks ast_parse (CodeIndexer src) fs))
               embeddings = Inr chunks'
         \<and> documents (db st) = chunks'"
proof -
  obtain lg chunks where ex: "extract_code_chunks ast_parse (CodeIndexer src) fs = (lg, chunks)"
    by (cases "extract_code_chunks ast_parse (CodeIndexer src) fs") auto
  obtain texts where texts: "embedding_texts chunks = Inr texts"
    using run root
    by (cases "embedding_texts chunks")
       (auto simp: main_def ex Let_def split: option.splits)
  obtain embeddings where emb: "encode_batch texts = Inr embeddings"
    using run root
    by (cases "encode_batch texts")
       (auto simp: main_def ex texts Let_def split: option.splits)
  obtain chunks' where att: "attach_embeddings chunks embeddings = Inr chunks'"
    using run root
    by (cases "attach_embeddings chunks embeddings")
       (auto simp: main_def ex texts emb Let_def split: option.splits)
  have "documents (db st) = chunks'"
    using run root
    by (auto simp: main_def ex texts emb att Let_def VectorDB_def clear_collection_def
          insert_chunks_def
          split: option.splits sum.splits prod.splits if_splits)
  then show ?thesis
    using texts emb att by (simp add: ex)
qed

text \<open>A \<^verbatim>\<open>delete_many\<close> that raises ends the script with its exception.\<close>

lemma main_delete_raises:
  assumes "exists_raises world = None" and "path_exists fs src"
    and "snd (extract_code_chunks ast_parse (CodeIndexer src) fs) = []"
    and "embedder_raises world = None" and "encode_batch [] = Inr embeddings"
    and "connect_raises world = None"
    and "delete_many world (documents store) = Some (e, held)"
  shows "snd (main ast_parse encode_batch world fs src store) = Inl e
       \<and> documents (db (fst (main ast_parse encode_batch world fs src store))) = held"
proof -
  obtain lg where "extract_code_chunks ast_parse (CodeIndexer src) fs = (lg, [])"
    using assms(3) by (cases "extract_code_chunks ast_parse (CodeIndexer src) fs") auto
  then show ?thesis
    using assms
    by (simp add: main_def Let_def VectorDB_def clear_collection_def)
qed

section \<open>Properties of the synthesizer and of the handler\<close>

lemma format_chunk_keys:
  assumes "format_chunk ext total_chunks i chunk = Inr block"
  shows "\<exists>n t p l. getitem chunk ''name'' = Inr n \<and> getitem chunk ''type'' = Inr t
           \<and> getitem chunk ''file_path'' = Inr p \<and> getitem chunk ''lineno'' = Inr l"
  using assms
  by (auto simp: format_chunk_def and_then_def Let_def split: sum.splits)

lemma format_chunks_debug_chunks:
  assumes "format_chunks ext total_chunks i chunks = Inr blocks"
  shows "\<exists>lines. debug_chunks ext j chunks = Inr lines"
  using assms
proof (induction chunks arbitrary: i j blocks)
  case Nil
  show ?case by simp
next
  case (Cons chunk chunks)
  obtain block where block: "format_chunk ext total_chunks i chunk = Inr block"
    using Cons.prems by (auto simp: and_then_def split: sum.splits)
  obtain rest where rest: "format_chunks ext total_chunks (Suc i) chunks = Inr rest"
    using Cons.prems by (auto simp: and_then_def split: sum.splits)
  obtain lines where lines: "debug_chunks ext (Suc j) chunks = Inr lines"
    using Cons.IH [OF rest] by blast
  show ?case
    using format_chunk_keys [OF block] lines by (auto simp: and_then_def)
qed

lemma format_context_debug_chunks:
  assumes "format_context ext chunks = Inr context"
  shows "\<exists>lines. debug_chunks ext 1 chunks = Inr lines"
proof -
  obtain blocks where "format_chunks ext (length chunks) 1 chunks = Inr blocks"
    using assms by (auto simp: format_context_def and_then_def split: sum.splits)
  then show ?thesis by (rule format_chunks_debug_chunks)
qed

text \<open>Past the formatting, \<^verbatim>\<open>generate\<close> is the guarded body with its handler.\<close>

lemma generate_guarded:
  assumes "format_context ext chunks = Inr context"
  shows "generate ext self q chunks =
           (case try_body ext self (request_of self (prompt_of context q)) of
              (calls, Inl e) \<Rightarrow> (calls, Inr (JStr (''Error generating response: '' @ str_exn e)))
            | (calls, Inr reply) \<Rightarrow> (calls, Inr reply))"
proof -
  obtain lines where "debug_chunks ext 1 chunks = Inr lines"
    using format_context_debug_chunks [OF assms] by blast
  then show ?thesis
    by (simp add: generate_def assms Let_def split: prod.splits sum.splits)
qed

lemma generate_no_raise:
  assumes "format_context ext chunks = Inr context"
  shows "\<exists>v. snd (generate ext self q chunks) = Inr v"
  unfolding generate_guarded [OF assms]
  by (auto split: prod.splits sum.splits)

lemma try_body_response:
  assumes "api_key self = Some k" and "k \<noteq> []" and "k \<noteq> ''None''"
    and "requests_post ext payload = Inr response"
  shows "try_body ext self payload =
           ([PostCall payload],
            if status_code response \<noteq> 200 then
              Inl (Exn PlainException
                    (''API returned '' @ str_int (status_code response) @ '': ''
                     @ response_text response))
            else and_then (json_body response) (read_answer ext))"
  using assms by (simp add: try_body_def)

lemma generate_response:
  assumes "format_context ext chunks = Inr context"
    and "api_key self = Some k" and "k \<noteq> []" and "k \<noteq> ''None''"
    and "requests_post ext (request_of self (prompt_of context q)) = Inr response"
    and "(if status_code response \<noteq> 200 then
              Inl (Exn PlainException
                    (''API returned '' @ str_int (status_code response) @ '': ''
                     @ response_text response))
            else and_then (json_body response) (read_answer ext)) = Inl e"
  shows "generate ext self q chunks =
           ([PostCall (request_of self (prompt_of context q))],
            Inr (JStr (''Error generating response: '' @ str_exn e)))"
  unfolding generate_guarded [OF assms(1)] try_body_response [OF assms(2-5)] assms(6)
  by simp

text \<open>A chunk that lacks a key the block reads makes the formatting raise.\<close>

lemma format_chunk_missing_key:
  assumes "k \<in> {''file_path'', ''name'', ''type'', ''lineno'', ''code''}"
    and "map_of chunk k = None"
  shows "\<exists>e. format_chunk ext total_chunks i chunk = Inl e"
proof (cases "format_chunk ext total_chunks i chunk")
  case (Inl e)
  then show ?thesis by blast
next
  case (Inr block)
  then have "getitem chunk ''file_path'' \<noteq> Inl (key_error ''file_path'')
      \<and> getitem chunk ''name'' \<noteq> Inl (key_error ''name'')
      \<and> getitem chunk ''type'' \<noteq> Inl (key_error ''type'')
      \<and> getitem chunk ''lineno'' \<noteq> Inl (key_error ''lineno'')
      \<and> getitem chunk ''code'' \<noteq> Inl (key_error ''code'')"
    by (auto simp: format_chunk_def and_then_def Let_def split: sum.splits)
  then show ?thesis
    using assms by (auto simp: getitem_def)
qed

lemma format_chunks_missing_key:
  assumes "chunk \<in> set chunks"
    and "k \<in> {''file_path'', ''name'', ''type'', ''lineno'', ''code''}"
    and "map_of chunk k = None"
  shows "\<exists>e. format_chunks ext total_chunks i chunks = Inl e"
  using assms(1)
proof (induction chunks arbitrary: i)
  case Nil
  then show ?case by simp
next
  case (Cons c chunks)
  show ?case
  proof (cases "format_chunk ext total_chunks i c")
    case (Inl e)
    then show ?thesis by (simp add: and_then_def)
  next
    case (Inr block)
    then have "c \<noteq> chunk"
      using format_chunk_missing_key [OF assms(2,3), of ext total_chunks i] by auto
    then obtain e where "format_chunks ext total_chunks (Suc i) chunks = Inl e"
      using Cons by auto
    then show ?thesis by (simp add: and_then_def Inr)
  qed
qed

section \<open>Claims about the unit extractor\<close>

text \<open>
  C4. In a run that visits a file with a Python syntax error, only that file is skipped:
  the run returns the chunks of the files before it followed by the chunks of the files
  after it, every other file that parses has all its chunks in the result, and the log
  holds a warning for the file with the line and the message of the error.
\<close>

theorem syntax_error_skips_only_that_file:
  assumes files: "scanned_files self fs = pre @ [bad] @ post"
    and src: "snd (read_source bad) = Inr source"
    and err: "ast_parse source = Inl (SyntaxErr l m)"
  shows "snd (extract_code_chunks ast_parse self fs) =
           concat (map (file_chunks ast_parse self) pre)
           @ concat (map (file_chunks ast_parse self) post)
         \<and> (\<forall>f \<in> set pre \<union> set post. \<forall>chunks.
               snd (parse_file ast_parse self f) = Inr chunks \<longrightarrow>
               set chunks \<subseteq> set (snd (extract_code_chunks ast_parse self fs)))
         \<and> (WARNING, ''Syntax error in '' @ str_path (file_path bad)
                      @ '': Invalid Python syntax at line ''
                      @ (case l of None \<Rightarrow> ''None'' | Some n \<Rightarrow> str_int n) @ '': '' @ m
                      @ ''. Skipping file.'')
             \<in> set (fst (extract_code_chunks ast_parse self fs))"
proof -
  have skipped: "file_chunks ast_parse self bad = []"
    using src err by (rule file_chunks_syntax_error)
  have result: "snd (extract_code_chunks ast_parse self fs) =
      concat (map (file_chunks ast_parse self) pre)
      @ concat (map (file_chunks ast_parse self) post)"
    by (simp add: extract_code_chunks_chunks files skipped)
  have others: "\<forall>f \<in> set pre \<union> set post. \<forall>chunks.
      snd (parse_file ast_parse self f) = Inr chunks \<longrightarrow>
      set chunks \<subseteq> set (snd (extract_code_chunks ast_parse self fs))"
    by (auto simp: result file_chunks_def)
  have "bad \<in> set (scanned_files self fs)"
    by (simp add: files)
  then have "syntax_warning bad l m \<in> set (fst (extract_code_chunks ast_parse self fs))"
    using src err by (rule extract_code_chunks_syntax_warning)
  then show ?thesis
    using result others by (simp add: syntax_warning_def)
qed

theorem syntax_error_skips_only_that_file_witness:
  "scanned_files (CodeIndexer [''repo'']) (repo_with [broken_file, add_file])
     = [] @ [broken_file] @ [add_file]
   \<and> snd (read_source broken_file) = Inr broken_source
   \<and> demo_parse broken_source = Inl (SyntaxErr (Some 1) ''invalid syntax'')
   \<and> snd (extract_code_chunks demo_parse (CodeIndexer [''repo''])
            (repo_with [broken_file, add_file])) = [add_chunk]
   \<and> (WARNING, ''Syntax error in repo/models/broken.py: Invalid Python syntax at line 1: invalid syntax. Skipping file.'')
       \<in> set (fst (extract_code_chunks demo_parse (CodeIndexer [''repo''])
                      (repo_with [broken_file, add_file])))"
proof -
  have files: "scanned_files (CodeIndexer [''repo'']) (repo_with [broken_file, add_file])
      = [] @ [broken_file] @ [add_file]"
    by (simp add: scanned_files_def CodeIndexer_def repo_with_def)
  have src: "snd (read_source broken_file) = Inr broken_source"
    by (simp add: read_source_def broken_file_def source_file_def)
  have err: "demo_parse broken_source = Inl (SyntaxErr (Some 1) ''invalid syntax'')"
    by (simp add: demo_parse_def broken_source_def add_source_def nested_source_def)
  have good: "file_chunks demo_parse (CodeIndexer [''repo'']) add_file = [add_chunk]"
    by code_simp
  have path: "str_path (file_path broken_file) = ''repo/models/broken.py''"
    by (simp add: broken_file_def source_file_def str_path_def)
  have line: "str_int 1 = ''1''"
    by code_simp
  show ?thesis
    using syntax_error_skips_only_that_file [where ast_parse = demo_parse, OF files src err] files src err good path line
    by simp
qed

text \<open>
  C7. A run that visits exactly one file, whose content is the one line
  \<^verbatim>\<open>def add(a, b): return a + b\<close>, returns exactly one chunk, with name \<^verbatim>\<open>add\<close>, type
  \<^verbatim>\<open>function\<close> and line number 1 (and an empty docstring).
\<close>

theorem single_function_yields_one_chunk:
  assumes files: "scanned_files self fs = [f]"
    and src: "snd (read_source f) = Inr ''def add(a, b): return a + b''"
    and tree: "ast_parse ''def add(a, b): return a + b'' = Inr add_module"
    and rel: "relative_to (file_path f) (source_dir self) = Inr rel"
  shows "snd (extract_code_chunks ast_parse self fs) =
           [[(''file_path'', PStr (str_path rel)), (''name'', PStr ''add''),
             (''type'', PStr ''function''), (''code'', PStr ''def add(a, b): return a + b''),
             (''docstring'', PStr ''''), (''lineno'', PInt 1),
             (''text_for_embedding'',
                PStr ''add\<newline>\<newline>def add(a, b): return a + b'')]]"
proof -
  have nodes: "filter is_sync_def (walk add_module)
      = [Node FunctionDef ''add'' 1 (Some 1) None
          [other ''arguments'' [other ''arg'' [], other ''arg'' []],
           other ''Return''
             [other ''BinOp''
                [other ''Name'' [other ''Load'' []], other ''Add'' [],
                 other ''Name'' [other ''Load'' []]]]]]"
    by (simp add: walk_def add_module_def other_def is_sync_def_def)
  have lines: "split_on CHR ''\<newline>'' ''def add(a, b): return a + b''
      = [''def add(a, b): return a + b'']"
    by simp
  have "snd (parse_file ast_parse self f) =
      Inr [[(''file_path'', PStr (str_path rel)), (''name'', PStr ''add''),
            (''type'', PStr ''function''), (''code'', PStr ''def add(a, b): return a + b''),
            (''docstring'', PStr ''''), (''lineno'', PInt 1),
            (''text_for_embedding'',
               PStr ''add\<newline>\<newline>def add(a, b): return a + b'')]]"
    unfolding parse_file_chunks [where ast_parse = ast_parse, OF src tree] nodes
    by (simp add: List.map_filter_simps extract_node_def Let_def rel lines py_slice_def
          slice_bound_def)
  then show ?thesis
    by (simp add: extract_code_chunks_chunks files file_chunks_def)
qed

theorem single_function_yields_one_chunk_witness:
  "scanned_files (CodeIndexer [''repo'']) (repo_with [add_file]) = [add_file]
   \<and> snd (read_source add_file) = Inr ''def add(a, b): return a + b''
   \<and> demo_parse ''def add(a, b): return a + b'' = Inr add_module
   \<and> relative_to (file_path add_file) (source_dir (CodeIndexer [''repo'']))
       = Inr [''models'', ''add.py'']
   \<and> snd (extract_code_chunks demo_parse (CodeIndexer [''repo'']) (repo_with [add_file]))
       = [[(''file_path'', PStr ''models/add.py''), (''name'', PStr ''add''),
           (''type'', PStr ''function''), (''code'', PStr ''def add(a, b): return a + b''),
           (''docstring'', PStr ''''), (''lineno'', PInt 1),
           (''text_for_embedding'',
              PStr ''add\<newline>\<newline>def add(a, b): return a + b'')]]"
proof -
  have files: "scanned_files (CodeIndexer [''repo'']) (repo_with [add_file]) = [add_file]"
    by (simp add: scanned_files_def CodeIndexer_def repo_with_def)
  have src: "snd (read_source add_file) = Inr ''def add(a, b): return a + b''"
    by (simp add: read_source_def add_file_def source_file_def add_source_def)
  have tree: "demo_parse ''def add(a, b): return a + b'' = Inr add_module"
    by (simp add: demo_parse_def add_source_def)
  have rel: "relative_to (file_path add_file) (source_dir (CodeIndexer [''repo'']))
      = Inr [''models'', ''add.py'']"
    by (simp add: relative_to_def add_file_def source_file_def CodeIndexer_def)
  have path: "str_path [''models'', ''add.py''] = ''models/add.py''"
    by (simp add: str_path_def)
  show ?thesis
    using single_function_yields_one_chunk [where ast_parse = demo_parse, OF files src tree rel] files src tree rel path
    by simp
qed

text \<open>
  C9. For a file that parses, the chunks \<^verbatim>\<open>_parse_file\<close> returns are made from a list of
  nodes that holds exactly the synchronous function definitions and the class
  definitions of the tree, at any depth, each once; no node of that list is an
  \<^verbatim>\<open>async def\<close>, and each of its nodes gives a chunk.
\<close>

theorem only_sync_defs_become_chunks:
  assumes src: "snd (read_source f) = Inr source"
    and tree: "ast_parse source = Inr tree"
    and rel: "relative_to (file_path f) (source_dir self) = Inr rel"
  shows "\<exists>nodes.
           snd (parse_file ast_parse self f) =
             Inr (List.map_filter (\<lambda>n. snd (extract_node self n source (file_path f))) nodes)
         \<and> set nodes = {n \<in> set (descendants tree).
                          node_class n = FunctionDef \<or> node_class n = ClassDef}
         \<and> length nodes = length (filter is_sync_def (descendants tree))
         \<and> length (List.map_filter (\<lambda>n. snd (extract_node self n source (file_path f))) nodes)
             = length nodes
         \<and> (\<forall>n \<in> set nodes. node_class n \<noteq> AsyncFunctionDef
                \<and> snd (extract_node self n source (file_path f)) \<noteq> None)"
proof (intro exI conjI)
  let ?chunk_of = "\<lambda>n. snd (extract_node self n source (file_path f))"
  let ?nodes = "filter is_sync_def (walk tree)"
  show "snd (parse_file ast_parse self f) = Inr (List.map_filter ?chunk_of ?nodes)"
    using src tree by (rule parse_file_chunks)
  show "set ?nodes = {n \<in> set (descendants tree).
                        node_class n = FunctionDef \<or> node_class n = ClassDef}"
    using set_walk_queue [of "[tree]"] by (auto simp: walk_def is_sync_def_def)
  show "length ?nodes = length (filter is_sync_def (descendants tree))"
    using count_walk_queue [of is_sync_def "[tree]"] by (simp add: walk_def)
  have some: "?chunk_of n \<noteq> None" for n
    by (simp add: extract_node_def Let_def rel)
  have "length (List.map_filter ?chunk_of ns) = length ns" for ns
  proof (induction ns)
    case Nil
    show ?case by (simp add: List.map_filter_simps)
  next
    case (Cons a ns)
    obtain c where "?chunk_of a = Some c"
      using some [of a] by auto
    then show ?case
      using Cons by (simp add: List.map_filter_simps)
  qed
  then show "length (List.map_filter ?chunk_of ?nodes) = length ?nodes" .
  show "\<forall>n \<in> set ?nodes. node_class n \<noteq> AsyncFunctionDef \<and> ?chunk_of n \<noteq> None"
    using some by (auto simp: is_sync_def_def)
qed

theorem only_sync_defs_become_chunks_witness:
  "snd (read_source nested_file) = Inr nested_source
   \<and> demo_parse nested_source = Inr nested_module
   \<and> relative_to (file_path nested_file) (source_dir (CodeIndexer [''repo'']))
       = Inr [''models'', ''nested.py'']
   \<and> length (filter is_sync_def (descendants nested_module)) = 3
   \<and> length (file_chunks demo_parse (CodeIndexer [''repo'']) nested_file)
       = length (filter is_sync_def (descendants nested_module))
   \<and> map (\<lambda>c. map_of c ''name'') (file_chunks demo_parse (CodeIndexer [''repo'']) nested_file)
       = [Some (PStr ''A''), Some (PStr ''helper''), Some (PStr ''m'')]"
proof -
  have src: "snd (read_source nested_file) = Inr nested_source"
    by (simp add: read_source_def nested_file_def source_file_def)
  have tree: "demo_parse nested_source = Inr nested_module"
    by (simp add: demo_parse_def nested_source_def add_source_def)
  have rel: "relative_to (file_path nested_file) (source_dir (CodeIndexer [''repo'']))
      = Inr [''models'', ''nested.py'']"
    by (simp add: relative_to_def nested_file_def source_file_def CodeIndexer_def)
  have count: "length (filter is_sync_def (descendants nested_module)) = 3"
    by (simp add: nested_module_def other_def is_sync_def_def)
  have names: "map (\<lambda>c. map_of c ''name'')
        (file_chunks demo_parse (CodeIndexer [''repo'']) nested_file)
      = [Some (PStr ''A''), Some (PStr ''helper''), Some (PStr ''m'')]"
    by code_simp
  obtain nodes where
    "snd (parse_file demo_parse (CodeIndexer [''repo'']) nested_file) =
       Inr (List.map_filter
              (\<lambda>n. snd (extract_node (CodeIndexer [''repo'']) n nested_source
                          (file_path nested_file))) nodes)"
    and "length nodes = length (filter is_sync_def (descendants nested_module))"
    and "length (List.map_filter
              (\<lambda>n. snd (extract_node (CodeIndexer [''repo'']) n nested_source
                          (file_path nested_file))) nodes) = length nodes"
    using only_sync_defs_become_chunks [where ast_parse = demo_parse, OF src tree rel]
    by blast
  then have "length (file_chunks demo_parse (CodeIndexer [''repo'']) nested_file)
      = length (filter is_sync_def (descendants nested_module))"
    by (simp add: file_chunks_def)
  then show ?thesis
    using src tree rel count names by simp
qed

section \<open>Claims about the stored fields and the build script\<close>




text \<open>
  C8. In a build that ends normally, with an encoder that returns one vector for each
  text, the text handed to the encoder for a chunk is the chunk's name, docstring and
  code joined by newlines (the chunk's \<^verbatim>\<open>text_for_embedding\<close>); the document stored for
  the chunk has no \<^verbatim>\<open>text_for_embedding\<close> key, has the chunk's vector under
  \<^verbatim>\<open>embedding\<close>, and agrees with the chunk on every other key.
\<close>

theorem embedding_text_is_consumed:
  assumes root: "path_exists fs src"
    and one_to_one: "\<forall>texts embeddings.
        encode_batch texts = Inr embeddings \<longrightarrow> length embeddings = length texts"
    and run: "main ast_parse encode_batch world fs src store = (st, Inr ())"
  shows "\<exists>texts embeddings.
           embedding_texts (snd (extract_code_chunks ast_parse (CodeIndexer src) fs)) = Inr texts
         \<and> encode_batch texts = Inr embeddings
         \<and> length (documents (db st))
             = length (snd (extract_code_chunks ast_parse (CodeIndexer src) fs))
         \<and> (\<forall>i < length (snd (extract_code_chunks ast_parse (CodeIndexer src) fs)).
               (\<exists>n d c.
                   map_of (snd (extract_code_chunks ast_parse (CodeIndexer src) fs) ! i) ''name''
                     = Some (PStr n)
                 \<and> map_of (snd (extract_code_chunks ast_parse (CodeIndexer src) fs) ! i)
                       ''docstring'' = Some (PStr d)
                 \<and> map_of (snd (extract_code_chunks ast_parse (CodeIndexer src) fs) ! i) ''code''
                     = Some (PStr c)
                 \<and> texts ! i = PStr (n @ ''\<newline>'' @ d @ ''\<newline>'' @ c))
             \<and> map_of (documents (db st) ! i) ''text_for_embedding'' = None
             \<and> map_of (documents (db st) ! i) ''embedding'' = Some (PFloats (embeddings ! i))
             \<and> (\<forall>k. k \<noteq> ''text_for_embedding'' \<and> k \<noteq> ''embedding'' \<longrightarrow>
                    map_of (documents (db st) ! i) k
                    = map_of (snd (extract_code_chunks ast_parse (CodeIndexer src) fs) ! i) k))"
proof -
  obtain lg chunks where ex: "extract_code_chunks ast_parse (CodeIndexer src) fs = (lg, chunks)"
    by (cases "extract_code_chunks ast_parse (CodeIndexer src) fs") auto
  have shape: "\<exists>p n t c d l. chunk =
           [(''file_path'', PStr p), (''name'', PStr n), (''type'', PStr t), (''code'', PStr c),
            (''docstring'', PStr d), (''lineno'', PInt l),
            (''text_for_embedding'', PStr (n @ ''\<newline>'' @ d @ ''\<newline>'' @ c))]"
    if "chunk \<in> set chunks" for chunk
    using that extracted_chunk_shape [of chunk ast_parse "CodeIndexer src" fs] by (simp add: ex)
  have has_text: "\<forall>chunk \<in> set chunks. \<exists>t. map_of chunk ''text_for_embedding'' = Some t"
    using shape by fastforce
  obtain texts where texts: "embedding_texts chunks = Inr texts" "length texts = length chunks"
    "\<forall>i < length chunks. map_of (chunks ! i) ''text_for_embedding'' = Some (texts ! i)"
    using embedding_texts_total [OF has_text] by blast
  obtain texts' embeddings chunks'' where steps:
    "embedding_texts chunks = Inr texts'" "encode_batch texts' = Inr embeddings"
    "attach_embeddings chunks embeddings = Inr chunks''" "documents (db st) = chunks''"
    using main_ends_normally [where ast_parse = ast_parse and encode_batch = encode_batch,
        OF root run]
    by (auto simp: ex)
  have emb: "encode_batch texts = Inr embeddings"
    using steps(1,2) texts(1) by simp
  have len: "length embeddings = length chunks"
    using one_to_one emb texts(2) by auto
  obtain chunks' where att: "attach_embeddings chunks embeddings = Inr chunks'"
    "length chunks' = length chunks"
    "\<forall>i < length chunks.
        map_of (chunks' ! i) ''text_for_embedding'' = None
      \<and> map_of (chunks' ! i) ''embedding'' = Some (PFloats (embeddings ! i))
      \<and> (\<forall>k. k \<noteq> ''text_for_embedding'' \<and> k \<noteq> ''embedding''
             \<longrightarrow> map_of (chunks' ! i) k = map_of (chunks ! i) k)"
    using attach_embeddings_total [OF has_text len] by blast
  have stored: "documents (db st) = chunks'"
    using steps(3,4) att(1) by simp
  have text_of: "\<exists>n d c. map_of (chunks ! i) ''name'' = Some (PStr n)
      \<and> map_of (chunks ! i) ''docstring'' = Some (PStr d)
      \<and> map_of (chunks ! i) ''code'' = Some (PStr c)
      \<and> texts ! i = PStr (n @ ''\<newline>'' @ d @ ''\<newline>'' @ c)"
    if i: "i < length chunks" for i
  proof -
    obtain p n t c d l where c: "chunks ! i =
           [(''file_path'', PStr p), (''name'', PStr n), (''type'', PStr t), (''code'', PStr c),
            (''docstring'', PStr d), (''lineno'', PInt l),
            (''text_for_embedding'', PStr (n @ ''\<newline>'' @ d @ ''\<newline>'' @ c))]"
      using shape [of "chunks ! i"] i by auto
    have "map_of (chunks ! i) ''text_for_embedding'' = Some (texts ! i)"
      using texts(3) i by blast
    then show ?thesis by (simp add: c)
  qed
  have per: "\<forall>i < length chunks.
               (\<exists>n d c.
                   map_of (chunks ! i) ''name'' = Some (PStr n)
                 \<and> map_of (chunks ! i) ''docstring'' = Some (PStr d)
                 \<and> map_of (chunks ! i) ''code'' = Some (PStr c)
                 \<and> texts ! i = PStr (n @ ''\<newline>'' @ d @ ''\<newline>'' @ c))
             \<and> map_of (chunks' ! i) ''text_for_embedding'' = None
             \<and> map_of (chunks' ! i) ''embedding'' = Some (PFloats (embeddings ! i))
             \<and> (\<forall>k. k \<noteq> ''text_for_embedding'' \<and> k \<noteq> ''embedding'' \<longrightarrow>
                    map_of (chunks' ! i) k = map_of (chunks ! i) k)"
  proof (intro allI impI)
    fix i assume i: "i < length chunks"
    have rest: "map_of (chunks' ! i) ''text_for_embedding'' = None
      \<and> map_of (chunks' ! i) ''embedding'' = Some (PFloats (embeddings ! i))
      \<and> (\<forall>k. k \<noteq> ''text_for_embedding'' \<and> k \<noteq> ''embedding''
             \<longrightarrow> map_of (chunks' ! i) k = map_of (chunks ! i) k)"
      using att(3) i by blast
    show "(\<exists>n d c.
                   map_of (chunks ! i) ''name'' = Some (PStr n)
                 \<and> map_of (chunks ! i) ''docstring'' = Some (PStr d)
                 \<and> map_of (chunks ! i) ''code'' = Some (PStr c)
                 \<and> texts ! i = PStr (n @ ''\<newline>'' @ d @ ''\<newline>'' @ c))
             \<and> map_of (chunks' ! i) ''text_for_embedding'' = None
             \<and> map_of (chunks' ! i) ''embedding'' = Some (PFloats (embeddings ! i))
             \<and> (\<forall>k. k \<noteq> ''text_for_embedding'' \<and> k \<noteq> ''embedding'' \<longrightarrow>
                    map_of (chunks' ! i) k = map_of (chunks ! i) k)"
      using text_of [OF i] rest by (rule conjI)
  qed
  have len': "length chunks' = length chunks"
    by (rule att(2))
  show ?thesis
    unfolding ex snd_conv stored
    using texts(1) emb len' per
    by (intro exI [of _ texts] exI [of _ embeddings] conjI)
qed

theorem embedding_text_is_consumed_witness:
  "path_exists (repo_with [add_file]) [''repo'']
   \<and> documents (db (fst (main demo_parse demo_encode_batch all_return (repo_with [add_file])
                            [''repo''] \<lparr>documents = []\<rparr>)))
       = [[(''file_path'', PStr ''models/add.py''), (''name'', PStr ''add''),
           (''type'', PStr ''function''),
           (''code'', PStr ''def add(a, b): return a + b''),
           (''docstring'', PStr []), (''lineno'', PInt 1),
           (''embedding'', PFloats [1 / 2, 1 / 4])]]
   \<and> snd (main demo_parse demo_encode_batch all_return (repo_with [add_file]) [''repo'']
            \<lparr>documents = []\<rparr>) = Inr ()
   \<and> embedding_texts (snd (extract_code_chunks demo_parse (CodeIndexer [''repo''])
                              (repo_with [add_file])))
       = Inr [PStr ''add\<newline>\<newline>def add(a, b): return a + b'']
   \<and> length (documents (db (fst (main demo_parse demo_encode_batch all_return (repo_with [add_file])
                                   [''repo''] \<lparr>documents = []\<rparr>))))
       = length (snd (extract_code_chunks demo_parse (CodeIndexer [''repo''])
                        (repo_with [add_file])))"
proof -
  have root: "path_exists (repo_with [add_file]) [''repo'']"
    by (simp add: repo_with_def)
  have one_to_one: "\<forall>texts embeddings.
      demo_encode_batch texts = Inr embeddings \<longrightarrow> length embeddings = length texts"
    by (auto simp: demo_encode_batch_def)
  have chunks: "extract_code_chunks demo_parse (CodeIndexer [''repo'']) (repo_with [add_file])
      = ([(INFO, ''Indexing directory: repo/models''),
          (WARNING, ''Directory not found: repo/engine. Skipping...''),
          (WARNING, ''Directory not found: repo/data. Skipping...''),
          (INFO, ''Successfully extracted 1 code chunks'')], [add_chunk])"
    by code_simp
  have texts: "embedding_texts [add_chunk]
      = Inr [PStr ''add\<newline>\<newline>def add(a, b): return a + b'']"
    by (simp add: add_chunk_def getitem_def)
  have attach: "attach_embeddings [add_chunk] [[1 / 2, 1 / 4]]
      = Inr [[(''file_path'', PStr ''models/add.py''), (''name'', PStr ''add''),
              (''type'', PStr ''function''),
              (''code'', PStr ''def add(a, b): return a + b''),
              (''docstring'', PStr ''''), (''lineno'', PInt 1),
              (''embedding'', PFloats [1 / 2, 1 / 4])]]"
    by (simp add: add_chunk_def delitem_def setitem_def)
  obtain st where run: "main demo_parse demo_encode_batch all_return (repo_with [add_file]) [''repo'']
      \<lparr>documents = []\<rparr> = (st, Inr ())"
    and docs: "documents (db st)
      = [[(''file_path'', PStr ''models/add.py''), (''name'', PStr ''add''),
          (''type'', PStr ''function''),
          (''code'', PStr ''def add(a, b): return a + b''),
          (''docstring'', PStr ''''), (''lineno'', PInt 1),
          (''embedding'', PFloats [1 / 2, 1 / 4])]]"
    by (simp add: main_def root chunks texts demo_encode_batch_def attach Let_def
          all_return_def VectorDB_def insert_chunks_def clear_collection_def
          del: embedding_texts.simps attach_embeddings.simps)
  have "length (documents (db st))
      = length (snd (extract_code_chunks demo_parse (CodeIndexer [''repo''])
                       (repo_with [add_file])))"
    using embedding_text_is_consumed
      [where ast_parse = demo_parse and encode_batch = demo_encode_batch,
       OF root one_to_one run]
    by blast
  then show ?thesis
    using root run docs chunks texts by simp
qed

text \<open>
  C2, as the spec states it, fails: over a tree with no Python file the extraction
  returns the empty list as an ordinary result, and the build script goes on, empties
  the collection, prints its success line and ends normally.
\<close>

theorem zero_chunks_counterexample:
  "snd (extract_code_chunks demo_parse (CodeIndexer [''repo'']) (repo_with [])) = []
   \<and> snd (main demo_parse demo_encode_batch all_return (repo_with []) [''repo'']
            \<lparr>documents = [add_chunk]\<rparr>) = Inr ()
   \<and> documents (db (fst (main demo_parse demo_encode_batch all_return (repo_with []) [''repo'']
                            \<lparr>documents = [add_chunk]\<rparr>))) = []
   \<and> ''\<newline>Success! Indexed 0 code chunks''
       \<in> set (printed (fst (main demo_parse demo_encode_batch all_return (repo_with [])
                               [''repo''] \<lparr>documents = [add_chunk]\<rparr>)))"
proof -
  have chunks: "extract_code_chunks demo_parse (CodeIndexer [''repo'']) (repo_with [])
      = ([(INFO, ''Indexing directory: repo/models''),
          (WARNING, ''Directory not found: repo/engine. Skipping...''),
          (WARNING, ''Directory not found: repo/data. Skipping...''),
          (ERROR, ''No code chunks found! Verify that repo contains Python files in ''
                  @ repr_str_list [''models'', ''engine'', ''data''])], [])"
    by code_simp
  have zero: "str_nat 0 = ''0''"
    by code_simp
  have root: "path_exists (repo_with []) [''repo'']"
    by (simp add: repo_with_def)
  show ?thesis
    by (simp add: main_def root chunks demo_encode_batch_def Let_def all_return_def
          VectorDB_def insert_chunks_def clear_collection_def zero)
qed

text \<open>
  C2, amended. When a run yields zero chunks, \<^verbatim>\<open>extract_code_chunks\<close> writes an
  error-level record to the log, as its last one, and returns the empty list to its
  caller as an ordinary result. The build script then goes on: provided that the check of
  the root path returns (and finds it), that the construction of the embedder and its
  call on the empty batch return, and that \<^verbatim>\<open>MongoClient\<close> and \<^verbatim>\<open>delete_many\<close> return,
  the script empties the collection, stores nothing (\<^verbatim>\<open>insert_many\<close> is not called, so
  nothing is asked of it), prints \<^verbatim>\<open>Success! Indexed 0 code chunks\<close> and ends normally.
\<close>

theorem zero_chunks_logged_and_build_goes_on:
  assumes root: "exists_raises world = None" "path_exists fs src"
    and zero: "snd (extract_code_chunks ast_parse (CodeIndexer src) fs) = []"
    and enc: "embedder_raises world = None" "encode_batch [] = Inr embeddings"
    and store: "connect_raises world = None" "delete_many world (documents store) = None"
  shows "last (fst (extract_code_chunks ast_parse (CodeIndexer src) fs))
           = (ERROR, ''No code chunks found! Verify that '' @ str_path src
                     @ '' contains Python files in ''
                     @ repr_str_list [''models'', ''engine'', ''data''])
         \<and> snd (main ast_parse encode_batch world fs src store) = Inr ()
         \<and> documents (db (fst (main ast_parse encode_batch world fs src store))) = []
         \<and> ''\<newline>Success! Indexed 0 code chunks''
             \<in> set (printed (fst (main ast_parse encode_batch world fs src store)))"
proof -
  obtain lg chunks where
    loop: "foldl (dir_step ast_parse (CodeIndexer src) fs) ([], []) (target_dirs (CodeIndexer src))
      = (lg, chunks)"
    by (cases "foldl (dir_step ast_parse (CodeIndexer src) fs) ([], [])
                 (target_dirs (CodeIndexer src))") auto
  have none: "chunks = []"
    using zero by (simp add: extract_code_chunks_def loop split: if_splits)
  have ex: "extract_code_chunks ast_parse (CodeIndexer src) fs
      = (lg @ [(ERROR, ''No code chunks found! Verify that '' @ str_path src
                       @ '' contains Python files in ''
                       @ repr_str_list [''models'', ''engine'', ''data''])], [])"
    unfolding extract_code_chunks_def loop
    by (simp add: none CodeIndexer_def)
  have count: "str_nat 0 = ''0''"
    by code_simp
  show ?thesis
    by (simp add: main_def root ex enc store Let_def VectorDB_def insert_chunks_def
          clear_collection_def count)
qed

theorem zero_chunks_logged_and_build_goes_on_witness:
  "exists_raises all_return = None
   \<and> path_exists (repo_with [broken_file]) [''repo'']
   \<and> snd (extract_code_chunks demo_parse (CodeIndexer [''repo'']) (repo_with [broken_file])) = []
   \<and> embedder_raises all_return = None
   \<and> demo_encode_batch [] = Inr []
   \<and> connect_raises all_return = None
   \<and> delete_many all_return (documents \<lparr>documents = [add_chunk]\<rparr>) = None
   \<and> last (fst (extract_code_chunks demo_parse (CodeIndexer [''repo''])
                   (repo_with [broken_file])))
       = (ERROR, ''No code chunks found! Verify that repo contains Python files in ''
                 @ repr_str_list [''models'', ''engine'', ''data''])
   \<and> snd (main demo_parse demo_encode_batch all_return (repo_with [broken_file]) [''repo'']
            \<lparr>documents = [add_chunk]\<rparr>) = Inr ()
   \<and> documents (db (fst (main demo_parse demo_encode_batch all_return (repo_with [broken_file])
                            [''repo''] \<lparr>documents = [add_chunk]\<rparr>))) = []"
proof -
  have checks: "exists_raises all_return = None"
    by (simp add: all_return_def)
  have root: "path_exists (repo_with [broken_file]) [''repo'']"
    by (simp add: repo_with_def)
  have zero: "snd (extract_code_chunks demo_parse (CodeIndexer [''repo''])
                     (repo_with [broken_file])) = []"
    by code_simp
  have built: "embedder_raises all_return = None"
    by (simp add: all_return_def)
  have enc: "demo_encode_batch [] = Inr []"
    by (simp add: demo_encode_batch_def)
  have client: "connect_raises all_return = None"
    by (simp add: all_return_def)
  have cleared: "delete_many all_return (documents \<lparr>documents = [add_chunk]\<rparr>) = None"
    by (simp add: all_return_def)
  have path: "str_path [''repo''] = ''repo''"
    by (simp add: str_path_def)
  show ?thesis
    using zero_chunks_logged_and_build_goes_on
      [where ast_parse = demo_parse and encode_batch = demo_encode_batch,
       OF checks root zero built enc client cleared]
      checks root zero built enc client cleared path
    by simp
qed

section \<open>Claims about the synthesizer\<close>

text \<open>
  C5. Once the context is formatted, no exception leaves \<^verbatim>\<open>generate\<close>, whatever the
  remote call does. When the remote service answers with a status other than 200, the
  returned string holds the status code and the body of the response verbatim; an empty
  payload, a payload without \<^verbatim>\<open>choices\<close>, an empty \<^verbatim>\<open>choices\<close> list, a choice without
  \<^verbatim>\<open>message\<close> and a message without \<^verbatim>\<open>content\<close> each give their own error string.
\<close>

theorem generate_returns_error_string:
  assumes ctx: "format_context ext chunks = Inr context"
    and key: "api_key self = Some k" "k \<noteq> []" "k \<noteq> ''None''"
    and post: "requests_post ext (request_of self (prompt_of context q)) = Inr response"
  shows "(\<exists>v. snd (generate ext self q chunks) = Inr v)
       \<and> (status_code response \<noteq> 200 \<longrightarrow>
            generate ext self q chunks =
              ([PostCall (request_of self (prompt_of context q))],
               Inr (JStr (''Error generating response: API returned ''
                          @ str_int (status_code response) @ '': ''
                          @ response_text response))))
       \<and> (status_code response = 200 \<and> json_body response = Inr data \<and> \<not> truthy data \<longrightarrow>
            snd (generate ext self q chunks) =
              Inr (JStr ''Error generating response: Empty response from API''))
       \<and> (status_code response = 200 \<and> json_body response = Inr (JObj kvs) \<and> kvs \<noteq> []
            \<and> map_of kvs ''choices'' = None \<longrightarrow>
            snd (generate ext self q chunks) =
              Inr (JStr (''Error generating response: No 'choices' in response. Got: ''
                         @ repr_json ext (JObj kvs))))
       \<and> (status_code response = 200 \<and> json_body response = Inr (JObj kvs)
            \<and> map_of kvs ''choices'' = Some (JArr []) \<longrightarrow>
            snd (generate ext self q chunks) =
              Inr (JStr ''Error generating response: Empty 'choices' array in response''))
       \<and> (status_code response = 200 \<and> json_body response = Inr (JObj kvs)
            \<and> map_of kvs ''choices'' = Some (JArr (JObj choice # choices))
            \<and> map_of choice ''message'' = None \<longrightarrow>
            snd (generate ext self q chunks) =
              Inr (JStr (''Error generating response: No 'message' in choice. Got: ''
                         @ repr_json ext (JObj choice))))
       \<and> (status_code response = 200 \<and> json_body response = Inr (JObj kvs)
            \<and> map_of kvs ''choices'' = Some (JArr (JObj choice # choices))
            \<and> map_of choice ''message'' = Some (JObj message)
            \<and> map_of message ''content'' = None \<longrightarrow>
            snd (generate ext self q chunks) =
              Inr (JStr (''Error generating response: No 'content' in message. Got: ''
                         @ repr_json ext (JObj message))))"
proof (intro conjI impI)
  note failing = generate_response [OF ctx key post]
  show "\<exists>v. snd (generate ext self q chunks) = Inr v"
    using ctx by (rule generate_no_raise)
  show "generate ext self q chunks =
      ([PostCall (request_of self (prompt_of context q))],
       Inr (JStr (''Error generating response: API returned ''
                  @ str_int (status_code response) @ '': '' @ response_text response)))"
    if "status_code response \<noteq> 200"
    using failing [of "Exn PlainException (''API returned '' @ str_int (status_code response)
                        @ '': '' @ response_text response)"] that
    by simp
  show "snd (generate ext self q chunks) =
      Inr (JStr ''Error generating response: Empty response from API'')"
    if "status_code response = 200 \<and> json_body response = Inr data \<and> \<not> truthy data"
    using failing [of "Exn ValueError ''Empty response from API''"] that
    by (simp add: and_then_def read_answer_def)
  show "snd (generate ext self q chunks) =
      Inr (JStr (''Error generating response: No 'choices' in response. Got: ''
                 @ repr_json ext (JObj kvs)))"
    if "status_code response = 200 \<and> json_body response = Inr (JObj kvs) \<and> kvs \<noteq> []
        \<and> map_of kvs ''choices'' = None"
    using failing [of "Exn ValueError (''No 'choices' in response. Got: ''
                        @ repr_json ext (JObj kvs))"] that
    by (simp add: and_then_def read_answer_def)
  show "snd (generate ext self q chunks) =
      Inr (JStr ''Error generating response: Empty 'choices' array in response'')"
    if "status_code response = 200 \<and> json_body response = Inr (JObj kvs)
        \<and> map_of kvs ''choices'' = Some (JArr [])"
  proof -
    have ne: "kvs \<noteq> []"
      using that by auto
    show ?thesis
      using failing [of "Exn ValueError ''Empty 'choices' array in response''"] that ne
      by (auto simp: and_then_def read_answer_def)
  qed
  show "snd (generate ext self q chunks) =
      Inr (JStr (''Error generating response: No 'message' in choice. Got: ''
                 @ repr_json ext (JObj choice)))"
    if "status_code response = 200 \<and> json_body response = Inr (JObj kvs)
        \<and> map_of kvs ''choices'' = Some (JArr (JObj choice # choices))
        \<and> map_of choice ''message'' = None"
  proof -
    have ne: "kvs \<noteq> []"
      using that by auto
    show ?thesis
      using failing [of "Exn ValueError (''No 'message' in choice. Got: ''
                        @ repr_json ext (JObj choice))"] that ne
      by (auto simp: and_then_def read_answer_def)
  qed
  show "snd (generate ext self q chunks) =
      Inr (JStr (''Error generating response: No 'content' in message. Got: ''
                 @ repr_json ext (JObj message)))"
    if "status_code response = 200 \<and> json_body response = Inr (JObj kvs)
        \<and> map_of kvs ''choices'' = Some (JArr (JObj choice # choices))
        \<and> map_of choice ''message'' = Some (JObj message)
        \<and> map_of message ''content'' = None"
  proof -
    have ne: "kvs \<noteq> []"
      using that by auto
    show ?thesis
      using failing [of "Exn ValueError (''No 'content' in message. Got: ''
                        @ repr_json ext (JObj message))"] that ne
      by (auto simp: and_then_def read_answer_def)
  qed
qed

theorem generate_returns_error_string_witness:
  "format_context demo_ext [retrieved_chunk]
     = Inr (''=== CODE CHUNK [1/1] ===\<newline>File: models/add.py\<newline>''
            @ ''Function/Class: add (function)\<newline>Lines: 1\<newline>''
            @ ''Purpose: No description\<newline>---\<newline>def add(a, b): return a + b\<newline>''
            @ replicate 30 CHR ''='')
   \<and> api_key demo_generator = Some ''sk-or-demo''
   \<and> status_code \<lparr>status_code = 429, response_text = ''rate limit exceeded'',
                     json_body = Inl (Exn JSONDecodeError ''Expecting value'')\<rparr> \<noteq> 200
   \<and> snd (generate demo_ext demo_generator ''How do I add?'' [retrieved_chunk])
       = Inr (JStr ''Error generating response: API returned 429: rate limit exceeded'')
   \<and> length (fst (generate demo_ext demo_generator ''How do I add?'' [retrieved_chunk])) = 1"
proof -
  let ?block = "''=== CODE CHUNK [1/1] ===\<newline>File: models/add.py\<newline>''
            @ ''Function/Class: add (function)\<newline>Lines: 1\<newline>''
            @ ''Purpose: No description\<newline>---\<newline>def add(a, b): return a + b\<newline>''
            @ replicate 30 CHR ''=''"
  let ?reply = "\<lparr>status_code = 429, response_text = ''rate limit exceeded'',
                     json_body = Inl (Exn JSONDecodeError ''Expecting value'')\<rparr>"
  have ctx: "format_context demo_ext [retrieved_chunk] = Inr ?block"
    by code_simp
  have key: "api_key demo_generator = Some ''sk-or-demo''"
    by (simp add: demo_generator_def ResponseGenerator_def)
  have post: "requests_post demo_ext (request_of demo_generator (prompt_of ?block ''How do I add?''))
      = Inr ?reply"
    by (simp add: demo_ext_def)
  have code: "str_int 429 = ''429''"
    by code_simp
  have "generate demo_ext demo_generator ''How do I add?'' [retrieved_chunk] =
      ([PostCall (request_of demo_generator (prompt_of ?block ''How do I add?''))],
       Inr (JStr (''Error generating response: API returned '' @ str_int 429 @ '': ''
                  @ ''rate limit exceeded'')))"
    using generate_returns_error_string [OF ctx key _ _ post] by simp
  then show ?thesis
    using ctx key code by simp
qed

text \<open>
  C10. A chunk list that holds a dictionary without one of the keys \<^verbatim>\<open>file_path\<close>,
  \<^verbatim>\<open>name\<close>, \<^verbatim>\<open>type\<close>, \<^verbatim>\<open>lineno\<close>, \<^verbatim>\<open>code\<close> makes \<^verbatim>\<open>generate\<close> raise: the
  exception comes from \<^verbatim>\<open>_format_context\<close>, before the guarded region, so it leaves
  \<^verbatim>\<open>generate\<close> and no remote call is made.
\<close>

theorem generate_raises_on_missing_key:
  assumes "chunk \<in> set chunks"
    and "k \<in> {''file_path'', ''name'', ''type'', ''lineno'', ''code''}"
    and "map_of chunk k = None"
  shows "\<exists>e. generate ext self q chunks = ([], Inl e)"
proof -
  obtain e where "format_chunks ext (length chunks) 1 chunks = Inl e"
    using format_chunks_missing_key [OF assms] by blast
  then have "format_context ext chunks = Inl e"
    by (simp add: format_context_def and_then_def)
  then show ?thesis
    by (simp add: generate_def)
qed

theorem generate_raises_on_missing_key_witness:
  "malformed_chunk \<in> set [retrieved_chunk, malformed_chunk]
   \<and> map_of malformed_chunk ''code'' = None
   \<and> generate demo_ext demo_generator ''How do I add?'' [retrieved_chunk, malformed_chunk]
       = ([], Inl (Exn KeyError (quoted ''code'')))"
proof -
  have member: "malformed_chunk \<in> set [retrieved_chunk, malformed_chunk]"
    by simp
  have key: "''code'' \<in> {''file_path'', ''name'', ''type'', ''lineno'', ''code''}"
    by simp
  have missing: "map_of malformed_chunk ''code'' = None"
    by (simp add: malformed_chunk_def)
  have ctx: "format_context demo_ext [retrieved_chunk, malformed_chunk]
      = Inl (Exn KeyError (quoted ''code''))"
    by code_simp
  obtain e where raised:
    "generate demo_ext demo_generator ''How do I add?'' [retrieved_chunk, malformed_chunk]
       = ([], Inl e)"
    using generate_raises_on_missing_key [OF member key missing] by blast
  then have "e = Exn KeyError (quoted ''code'')"
    by (simp add: generate_def ctx)
  then show ?thesis
    using member missing raised by simp
qed

section \<open>Claims about the HTTP handler\<close>

text \<open>
  C1. Over an empty index the handler raises \<^verbatim>\<open>HTTPException(404)\<close> inside its own
  \<^verbatim>\<open>try\<close>; the \<^verbatim>\<open>except Exception\<close> clause catches it, and the caller receives status
  500 with the text of the 404 as detail: the same status as when the store is down.
\<close>

theorem empty_retrieval_gives_500:
  "ask_question empty_index_ext demo_generator \<lparr>question = ''How do I add?'', top_k = 5\<rparr>
     = ([EncodeCall ''How do I add?'', StoreQuery (search_pipeline [1 / 2, 1 / 4] 5)],
        Inl (HTTPException 500 ''404: No relevant code found''))
   \<and> http_status (snd (ask_question empty_index_ext demo_generator
                          \<lparr>question = ''How do I add?'', top_k = 5\<rparr>)) = 500
   \<and> http_status (snd (ask_question store_down_ext demo_generator
                          \<lparr>question = ''How do I add?'', top_k = 5\<rparr>)) = 500"
proof -
  have code: "str_int 404 = ''404''"
    by code_simp
  have empty: "ask_question empty_index_ext demo_generator
      \<lparr>question = ''How do I add?'', top_k = 5\<rparr>
     = ([EncodeCall ''How do I add?'', StoreQuery (search_pipeline [1 / 2, 1 / 4] 5)],
        Inl (HTTPException 500 ''404: No relevant code found''))"
    by (simp add: ask_question_def ask_body_def search_def empty_index_ext_def demo_ext_def
          Let_def code)
  have down: "snd (ask_question store_down_ext demo_generator
      \<lparr>question = ''How do I add?'', top_k = 5\<rparr>)
     = Inl (HTTPException 500 ''connection refused'')"
    by (simp add: ask_question_def ask_body_def search_def store_down_ext_def demo_ext_def
          Let_def)
  show ?thesis
    by (simp add: empty down)
qed




end
